theory Spec2Isabelle
  imports Main "HOL-Library.Word"
begin

unbundle bit_operations_syntax

section \<open>xdg-desktop-portal-wlr: process lifecycle and event loop (src/core/main.c)\<close>

text \<open>
  The program is one C file whose logic is the order in which it calls the operating
  system and three libraries (sd-bus, libwayland-client, PipeWire), and what it does with
  each result.  The embedding keeps exactly that:

  \<^item> the outside world is a state of an arbitrary type \<open>'w\<close>; every external function is
    a field of a record of oracles that maps a world to a result and the next world;
  \<^item> the program state is the world together with the list of external calls made so
    far, oldest first (type \<open>'w st\<close>); every call the C code makes appends one
    \<open>call\<close> with its arguments and the result the code looks at;
  \<^item> a POSIX call that fails returns \<open>-1\<close> and sets \<open>errno\<close>: that is \<open>Inl errno\<close>,
    a success is \<open>Inr value\<close>;
  \<^item> a result \<open>None\<close> of a function means that the C function does not return
    there: a write outside a buffer, a read of an unterminated string, a loop that
    never ends, or a signal the process sends to itself that ends it.
\<close>

subsection \<open>Constants of the system headers\<close>

type_synonym 'a posix = "int + 'a"

text \<open>Linux values of \<open>errno.h\<close>, \<open>stdlib.h\<close> and \<open>poll.h\<close>.\<close>

definition EWOULDBLOCK :: int where "EWOULDBLOCK = 11"
definition EOVERFLOW :: int where "EOVERFLOW = 75"
definition EXIT_SUCCESS :: int where "EXIT_SUCCESS = 0"
definition EXIT_FAILURE :: int where "EXIT_FAILURE = 1"
definition POLLIN :: "16 word" where "POLLIN = 1"

datatype signal = SIGTERM | SIGKILL

text \<open>\<open>enum LOGLEVEL\<close> of logger.h (the names the usage text lists).\<close>

datatype loglevel = QUIET | ERROR | WARN | INFO | DEBUG | TRACE

text \<open>Handles: \<open>sd_bus *\<close>, \<open>struct wl_display *\<close>, \<open>struct pw_loop *\<close> that are not NULL.\<close>

type_synonym handle = nat

subsection \<open>The shared state (struct xdpw_state of xdpw.h)\<close>

text \<open>
  \<open>struct wl_list\<close> of wayland-util.h is the head of a doubly linked list: two
  pointers \<open>prev\<close> and \<open>next\<close>.  A pointer is NULL, the address of the head it is
  stored in, or the address of an element that was inserted.
\<close>

datatype wl_link = Null | Self | Elem handle

record wl_list =
  wl_list_prev :: wl_link
  wl_list_next :: wl_link

record xdpw_state =
  bus :: handle
  wl_display :: handle
  pw_loop :: handle
  screencast_source_types :: "32 word"
  screencast_cursor_modes :: "32 word"
  screencast_version :: "32 word"
  xdpw_sessions :: wl_list

text \<open>
  The enumerators and the version macro that \<open>main\<close> puts into the state are declared
  in headers that are not part of the source at hand; they are parameters.
\<close>

record xdpw_h =
  MONITOR :: "32 word"
  HIDDEN :: "32 word"
  EMBEDDED :: "32 word"
  XDP_CAST_PROTO_VER :: "32 word"

subsection \<open>The log of external calls\<close>

datatype logarg =
    Arg_str string
  | Arg_strerror int
  | Arg_strerror_errno
  | Arg_spa_strerror int

datatype call =
    Logprint loglevel string "logarg list"
  | Init_logger loglevel
  | Open string "int posix"
  | Flock int "unit posix"
  | Read int nat "string posix"
  | Kill int signal
  | Sleep nat
  | Close int
  | Ftruncate int nat "unit posix"
  | Write int string "nat posix"
  | Fsync int "unit posix"
  | Sd_bus_open_user int handle
  | Wl_display_connect "handle option"
  | Pw_init
  | Pw_loop_new "handle option"
  | Wl_list_init
  | Xdpw_screenshot_init xdpw_state
  | Xdpw_screencast_init xdpw_state "string option" int
  | Sd_bus_request_name handle string int
  | Poll int
  | Sd_bus_process handle int
  | Wl_display_dispatch handle int
  | Pw_loop_iterate handle int
  | Wl_display_dispatch_pending handle int
  | Wl_display_flush handle
  | Sd_bus_flush handle
  | Sd_bus_unref handle
  | Pw_loop_leave handle
  | Pw_loop_destroy handle
  | Wl_display_disconnect handle

type_synonym 'w st = "'w \<times> call list"

definition logprint :: "loglevel \<Rightarrow> string \<Rightarrow> logarg list \<Rightarrow> 'w st \<Rightarrow> 'w st" where
  "logprint lvl fmt args s = (fst s, snd s @ [Logprint lvl fmt args])"

subsection \<open>The operating system as the lock code sees it\<close>

record 'w libc =
  os_getenv :: "string \<Rightarrow> 'w \<Rightarrow> string option"
  os_getpid :: "'w \<Rightarrow> int"
  os_open :: "string \<Rightarrow> 'w \<Rightarrow> int posix \<times> 'w"
  os_flock :: "int \<Rightarrow> 'w \<Rightarrow> unit posix \<times> 'w"
  os_read :: "int \<Rightarrow> 'w \<Rightarrow> string posix \<times> 'w"
  os_kill :: "int \<Rightarrow> signal \<Rightarrow> 'w \<Rightarrow> 'w option"
  os_sleep :: "nat \<Rightarrow> 'w \<Rightarrow> 'w"
  os_close :: "int \<Rightarrow> 'w \<Rightarrow> 'w"
  os_ftruncate :: "int \<Rightarrow> nat \<Rightarrow> 'w \<Rightarrow> unit posix \<times> 'w"
  os_write :: "int \<Rightarrow> string \<Rightarrow> 'w \<Rightarrow> nat posix \<times> 'w"
  os_fsync :: "int \<Rightarrow> 'w \<Rightarrow> unit posix \<times> 'w"

text \<open>
  The calls as the C code makes them.  \<open>open\<close> is always called with
  \<open>O_RDWR | O_CREAT\<close> and mode \<open>S_IRUSR | S_IWUSR\<close>, \<open>flock\<close> with
  \<open>LOCK_EX | LOCK_NB\<close>.  \<open>read\<close> stores at most \<open>count\<close> of the bytes the file
  offers.  The results of \<open>kill\<close>, \<open>sleep\<close> and \<open>close\<close> are not looked at.

  \<open>kill\<close> takes a \<open>pid_t\<close>, a signed integer of 32 bits; a pid that is zero or
  negative addresses a process group or every process.  A signal that reaches the
  calling process itself ends it: \<open>SIGKILL\<close> always, \<open>SIGTERM\<close> because the
  program installs no handler for it.  Then \<open>kill\<close> does not return and nothing
  after it runs; that is the result \<open>None\<close> of the oracle.
\<close>

definition sys_open :: "'w libc \<Rightarrow> string \<Rightarrow> 'w st \<Rightarrow> int posix \<times> 'w st" where
  "sys_open S path s =
     (case os_open S path (fst s) of (r, w') \<Rightarrow> (r, w', snd s @ [Open path r]))"

definition sys_flock :: "'w libc \<Rightarrow> int \<Rightarrow> 'w st \<Rightarrow> unit posix \<times> 'w st" where
  "sys_flock S fd s =
     (case os_flock S fd (fst s) of (r, w') \<Rightarrow> (r, w', snd s @ [Flock fd r]))"

definition sys_read :: "'w libc \<Rightarrow> int \<Rightarrow> nat \<Rightarrow> 'w st \<Rightarrow> string posix \<times> 'w st" where
  "sys_read S fd count s =
     (case os_read S fd (fst s) of
        (r, w') \<Rightarrow>
          (let r' = map_sum id (take count) r in (r', w', snd s @ [Read fd count r'])))"

definition sys_kill :: "'w libc \<Rightarrow> int \<Rightarrow> signal \<Rightarrow> 'w st \<Rightarrow> 'w st option" where
  "sys_kill S pid sig s =
     (case os_kill S pid sig (fst s) of
        None \<Rightarrow> None
      | Some w' \<Rightarrow> Some (w', snd s @ [Kill pid sig]))"

definition sys_sleep :: "'w libc \<Rightarrow> nat \<Rightarrow> 'w st \<Rightarrow> 'w st" where
  "sys_sleep S seconds s = (os_sleep S seconds (fst s), snd s @ [Sleep seconds])"

definition sys_close :: "'w libc \<Rightarrow> int \<Rightarrow> 'w st \<Rightarrow> 'w st" where
  "sys_close S fd s = (os_close S fd (fst s), snd s @ [Close fd])"

definition sys_ftruncate :: "'w libc \<Rightarrow> int \<Rightarrow> nat \<Rightarrow> 'w st \<Rightarrow> unit posix \<times> 'w st" where
  "sys_ftruncate S fd len s =
     (case os_ftruncate S fd len (fst s) of (r, w') \<Rightarrow> (r, w', snd s @ [Ftruncate fd len r]))"

definition sys_write :: "'w libc \<Rightarrow> int \<Rightarrow> string \<Rightarrow> 'w st \<Rightarrow> nat posix \<times> 'w st" where
  "sys_write S fd bytes s =
     (case os_write S fd bytes (fst s) of (r, w') \<Rightarrow> (r, w', snd s @ [Write fd bytes r]))"

definition sys_fsync :: "'w libc \<Rightarrow> int \<Rightarrow> 'w st \<Rightarrow> unit posix \<times> 'w st" where
  "sys_fsync S fd s =
     (case os_fsync S fd (fst s) of (r, w') \<Rightarrow> (r, w', snd s @ [Fsync fd r]))"

subsection \<open>C strings, \<open>memcpy\<close>, \<open>atoi\<close> and \<open>sprintf("%d")\<close>\<close>

definition NUL :: char where "NUL = CHR 0x00"

text \<open>The C string that starts at a sequence of bytes ends before its first zero byte.\<close>

definition c_str :: "string \<Rightarrow> string" where
  "c_str bs = takeWhile (\<lambda>c. c \<noteq> NUL) bs"

definition strlen :: "string \<Rightarrow> nat" where
  "strlen bs = length (c_str bs)"

text \<open>
  A buffer on the stack: \<open>None\<close> is a byte that was never written.  \<open>memcpy\<close> of \<open>n\<close>
  bytes to offset \<open>off\<close> has a defined result only when the \<open>n\<close> bytes lie inside the
  buffer (and inside the source).
\<close>

type_synonym buffer = "char option list"

definition memcpy :: "buffer \<Rightarrow> nat \<Rightarrow> string \<Rightarrow> nat \<Rightarrow> buffer option" where
  "memcpy dst off src n =
     (if off + n \<le> length dst \<and> n \<le> length src
      then Some (take off dst @ map Some (take n src) @ drop (off + n) dst)
      else None)"

text \<open>Reading a buffer as a C string: defined when a zero byte comes before the end of
  the buffer and before any byte that was never written.\<close>

fun buffer_str :: "buffer \<Rightarrow> string option" where
  "buffer_str [] = None"
| "buffer_str (None # bs) = None"
| "buffer_str (Some c # bs) =
     (if c = NUL then Some [] else map_option ((#) c) (buffer_str bs))"

definition isspace :: "char \<Rightarrow> bool" where
  "isspace c = (c \<in> set [CHR '' '', CHR 0x09, CHR 0x0A, CHR 0x0B, CHR 0x0C, CHR 0x0D])"

definition isdigit :: "char \<Rightarrow> bool" where
  "isdigit c = (48 \<le> (of_char c :: nat) \<and> (of_char c :: nat) \<le> 57)"

fun digits_value :: "int \<Rightarrow> string \<Rightarrow> int" where
  "digits_value acc [] = acc"
| "digits_value acc (c # cs) =
     (if isdigit c then digits_value (10 * acc + (of_char c - 48)) cs else acc)"

text \<open>
  \<open>strtol\<close> in base 10: white space, an optional sign, decimal digits; the value
  is a \<open>long\<close> of 64 bits, and a value outside its range is replaced by the nearest
  bound.  \<open>atoi(s)\<close> is \<open>(int) strtol(s, NULL, 10)\<close> in the C library the program is
  linked with: the conversion keeps the low 32 bits, read as a signed number.  (The C
  standard leaves \<open>atoi\<close> of a value outside \<open>int\<close> undefined.)
\<close>

definition LONG_MAX :: int where "LONG_MAX = 9223372036854775807"

definition strtol :: "string \<Rightarrow> int" where
  "strtol s =
     (let v = (case dropWhile isspace s of
                 [] \<Rightarrow> 0
               | c # cs \<Rightarrow>
                   if c = CHR ''-'' then - digits_value 0 cs
                   else if c = CHR ''+'' then digits_value 0 cs
                   else digits_value 0 (c # cs))
      in if v > LONG_MAX then LONG_MAX
         else if v < - LONG_MAX - 1 then - LONG_MAX - 1
         else v)"

text \<open>The conversion of a \<open>long\<close> to \<open>int\<close>: modulo \<open>2^32\<close>, into
  \<open>-2^31 .. 2^31 - 1\<close>.\<close>

definition int_of_long :: "int \<Rightarrow> int" where
  "int_of_long v = (v + 2147483648) mod 4294967296 - 2147483648"

definition atoi :: "string \<Rightarrow> int" where
  "atoi s = int_of_long (strtol s)"

definition digit_char :: "nat \<Rightarrow> char" where
  "digit_char d = ''0123456789'' ! d"

function string_of_nat :: "nat \<Rightarrow> string" where
  "string_of_nat n =
     (if n < 10 then [digit_char n]
      else string_of_nat (n div 10) @ [digit_char (n mod 10)])"
  by pat_completeness auto
termination
  by (relation "measure id") auto

declare string_of_nat.simps [simp del]

text \<open>The text \<open>sprintf(pid, "%d", i)\<close> writes.\<close>

definition sprintf_d :: "int \<Rightarrow> string" where
  "sprintf_d i = (if i < 0 then CHR ''-'' # string_of_nat (nat (- i)) else string_of_nat (nat i))"

subsection \<open>InstanceGuard: \<open>open_pidfd\<close> and \<open>assert_only_one_xdpw_instance\<close>\<close>

definition pidfdname :: string where
  "pidfdname = ''/xdpw.pid''"

text \<open>\<open>sizeof(pidfdname)\<close> counts the terminating zero byte.\<close>

definition sizeof_pidfdname :: nat where
  "sizeof_pidfdname = length pidfdname + 1"

definition sizeof_filename :: nat where
  "sizeof_filename = 256"

text \<open>
  \<open>open_pidfd\<close>, lines 39 to 58.  \<open>prefix\<close> is the value of \<open>XDG_RUNTIME_DIR\<close> or
  \<open>"/tmp"\<close>.  Lengths are natural numbers: a string in memory is shorter than
  \<open>2^64 - 10\<close> bytes, so the \<open>size_t\<close> sum of line 46 does not wrap.
\<close>

definition open_pidfd :: "'w libc \<Rightarrow> 'w st \<Rightarrow> (int posix \<times> 'w st) option" where
  "open_pidfd S s =
     (let filename = replicate sizeof_filename None;
          prefix = (case os_getenv S ''XDG_RUNTIME_DIR'' (fst s) of
                      None \<Rightarrow> ''/tmp'' | Some p \<Rightarrow> p);
          prefix_len = strlen prefix
      in if prefix_len + sizeof_pidfdname > sizeof_filename then Some (Inl EOVERFLOW, s)
         else
           (case memcpy filename 0 prefix prefix_len of
              None \<Rightarrow> None
            | Some filename1 \<Rightarrow>
                (case memcpy filename1 prefix_len (pidfdname @ [NUL]) sizeof_pidfdname of
                   None \<Rightarrow> None
                 | Some filename2 \<Rightarrow>
                     (case buffer_str filename2 of
                        None \<Rightarrow> None
                      | Some path \<Rightarrow> Some (sys_open S path s)))))"

text \<open>
  Lines 92 to 99: the three calls are joined by \<open>||\<close>, so the first that fails ends the
  chain; \<open>write\<close> counts as failed only when it returns \<open>-1\<close>.  A failure is logged and
  nothing else.
\<close>

definition write_pid :: "'w libc \<Rightarrow> int \<Rightarrow> 'w st \<Rightarrow> 'w st" where
  "write_pid S pidfd s =
     (let pid = sprintf_d (os_getpid S (fst s)) in
      case sys_ftruncate S pidfd 0 s of
        (Inl e, s1) \<Rightarrow> logprint ERROR ''Failed to write to pid file: %s\<newline>'' [Arg_strerror e] s1
      | (Inr _, s1) \<Rightarrow>
          (case sys_write S pidfd pid s1 of
             (Inl e, s2) \<Rightarrow>
               logprint ERROR ''Failed to write to pid file: %s\<newline>'' [Arg_strerror e] s2
           | (Inr _, s2) \<Rightarrow>
               (case sys_fsync S pidfd s2 of
                  (Inl e, s3) \<Rightarrow>
                    logprint ERROR ''Failed to write to pid file: %s\<newline>'' [Arg_strerror e] s3
                | (Inr _, s3) \<Rightarrow> s3)))"

text \<open>
  \<open>assert_only_one_xdpw_instance\<close>, lines 60 to 102.  The result is the C return
  value, \<open>-1\<close> or \<open>0\<close>.  \<open>other_inst\<close> is the buffer of 16 bytes after line 74: the
  bytes read, then a zero byte.  \<open>other_pid\<close> is a \<open>pid_t\<close> and holds the \<open>int\<close>
  that \<open>atoi\<close> returns.  When one of the two signals ends the process itself, the
  function does not return.
\<close>

function assert_only_one_xdpw_instance ::
    "'w libc \<Rightarrow> bool \<Rightarrow> 'w st \<Rightarrow> (int \<times> 'w st) option" where
  "assert_only_one_xdpw_instance S replace_existing s =
     (case open_pidfd S s of
        None \<Rightarrow> None
      | Some (Inl e, s1) \<Rightarrow>
          Some (- 1, logprint ERROR ''Failed to open pid file: %s\<newline>'' [Arg_strerror e] s1)
      | Some (Inr pidfd, s1) \<Rightarrow>
          (case sys_flock S pidfd s1 of
             (Inl e, s2) \<Rightarrow>
               if e = EWOULDBLOCK then
                 (case sys_read S pidfd 15 s2 of
                    (Inl _, s3) \<Rightarrow>
                      Some (- 1, logprint ERROR ''Another instance is already running\<newline>'' [] s3)
                  | (Inr bytes, s3) \<Rightarrow>
                      (let other_inst = c_str bytes in
                       if replace_existing then
                         (let other_pid = atoi other_inst in
                          case sys_kill S other_pid SIGTERM s3 of
                            None \<Rightarrow> None
                          | Some s4 \<Rightarrow>
                              (case sys_kill S other_pid SIGKILL (sys_sleep S 1 s4) of
                                 None \<Rightarrow> None
                               | Some s6 \<Rightarrow>
                                   assert_only_one_xdpw_instance S False
                                     (sys_close S pidfd s6)))
                       else
                         Some (- 1,
                           logprint ERROR ''Another instance is already running with pid %s\<newline>''
                             [Arg_str other_inst] s3)))
               else Some (- 1, logprint ERROR ''Failed to lock pid file: %s\<newline>'' [Arg_strerror e] s2)
           | (Inr _, s2) \<Rightarrow> Some (0, write_pid S pidfd s2)))"
  by pat_completeness auto
termination
  by (relation "measure (\<lambda>(S, replace_existing, s). if replace_existing then 1 else 0)") auto

declare assert_only_one_xdpw_instance.simps [simp del]

subsection \<open>Notions used to state the properties of the lock code\<close>

text \<open>The directory the lock file is put in (lines 41 and 43) and the path that
  results when the directory is short enough.\<close>

definition runtime_prefix :: "'w libc \<Rightarrow> 'w \<Rightarrow> string" where
  "runtime_prefix S w =
     (case os_getenv S ''XDG_RUNTIME_DIR'' w of None \<Rightarrow> ''/tmp'' | Some p \<Rightarrow> p)"

definition pidfile_path :: "'w libc \<Rightarrow> 'w \<Rightarrow> string" where
  "pidfile_path S w = c_str (runtime_prefix S w) @ pidfdname"

definition path_fits :: "'w libc \<Rightarrow> 'w \<Rightarrow> bool" where
  "path_fits S w = (strlen (runtime_prefix S w) + sizeof_pidfdname \<le> sizeof_filename)"



definition is_file_change :: "call \<Rightarrow> bool" where
  "is_file_change c = (case c of Ftruncate _ _ _ \<Rightarrow> True | Write _ _ _ \<Rightarrow> True | _ \<Rightarrow> False)"


subsection \<open>A simulated operating system with one lock file\<close>

text \<open>
  A small world to run the lock code in: the lock file has a content and at most one
  holder of its lock.  The process that runs has the pid \<open>self\<close> and is the leader
  of its own process group, so a signal sent to \<open>self\<close>, to \<open>0\<close> or to \<open>-self\<close>
  reaches the process itself and ends it.  \<open>SIGKILL\<close> sent to the holder, or to
  \<open>-1\<close> (every process but the sender), ends the holder and frees the lock;
  \<open>SIGTERM\<close> is ignored by the holder.
\<close>

record lockfile =
  lock_holder :: "int option"
  file_content :: string

definition sim_libc :: "int \<Rightarrow> lockfile libc" where
  "sim_libc self =
     \<lparr> os_getenv = (\<lambda>name w. if name = ''XDG_RUNTIME_DIR'' then Some ''/run/user/1000'' else None),
       os_getpid = (\<lambda>w. self),
       os_open = (\<lambda>path w. (Inr 3, w)),
       os_flock = (\<lambda>fd w.
          case lock_holder w of
            None \<Rightarrow> (Inr (), w\<lparr>lock_holder := Some self\<rparr>)
          | Some p \<Rightarrow> if p = self then (Inr (), w) else (Inl EWOULDBLOCK, w)),
       os_read = (\<lambda>fd w. (Inr (file_content w), w)),
       os_kill = (\<lambda>pid sig w.
          if pid = self \<or> pid = 0 \<or> pid = - self then None
          else if sig = SIGKILL \<and> (lock_holder w = Some pid \<or> pid = - 1)
          then Some (w\<lparr>lock_holder := None\<rparr>)
          else Some w),
       os_sleep = (\<lambda>seconds w. w),
       os_close = (\<lambda>fd w. w),
       os_ftruncate = (\<lambda>fd len w. (Inr (), w\<lparr>file_content := take len (file_content w)\<rparr>)),
       os_write = (\<lambda>fd bytes w.
          (Inr (length bytes), w\<lparr>file_content := file_content w @ bytes\<rparr>)),
       os_fsync = (\<lambda>fd w. (Inr (), w)) \<rparr>"

text \<open>Another instance, pid 1234, holds the lock and has written its pid.\<close>

definition held_by_1234 :: lockfile where
  "held_by_1234 = \<lparr> lock_holder = Some 1234, file_content = ''1234'' \<rparr>"




text \<open>Nobody holds the lock; the file still has the pid of an earlier run.\<close>

definition stale_1234 :: lockfile where
  "stale_1234 = \<lparr> lock_holder = None, file_content = ''1234'' \<rparr>"

text \<open>Variants of the simulated system: the disk is full (\<open>ENOSPC\<close>), the lock file
  cannot be read (\<open>EIO\<close>), the holder survives \<open>SIGKILL\<close>.\<close>

definition sim_libc_disk_full :: "int \<Rightarrow> lockfile libc" where
  "sim_libc_disk_full self = (sim_libc self)\<lparr> os_write := (\<lambda>fd bytes w. (Inl 28, w)) \<rparr>"

definition sim_libc_unreadable :: "int \<Rightarrow> lockfile libc" where
  "sim_libc_unreadable self = (sim_libc self)\<lparr> os_read := (\<lambda>fd w. (Inl 5, w)) \<rparr>"

definition sim_libc_unkillable :: "int \<Rightarrow> lockfile libc" where
  "sim_libc_unkillable self = (sim_libc self)\<lparr> os_kill := (\<lambda>pid sig w. Some w) \<rparr>"

text \<open>More variants: the directory is not writable (\<open>EACCES\<close>), the system has no
  locks left (\<open>ENOLCK\<close>), the runtime directory has a name of 247 bytes.\<close>

definition sim_libc_no_access :: "int \<Rightarrow> lockfile libc" where
  "sim_libc_no_access self = (sim_libc self)\<lparr> os_open := (\<lambda>path w. (Inl 13, w)) \<rparr>"

definition sim_libc_no_locks :: "int \<Rightarrow> lockfile libc" where
  "sim_libc_no_locks self = (sim_libc self)\<lparr> os_flock := (\<lambda>fd w. (Inl 37, w)) \<rparr>"

definition sim_libc_long_dir :: "int \<Rightarrow> lockfile libc" where
  "sim_libc_long_dir self =
     (sim_libc self)\<lparr> os_getenv := (\<lambda>name w. Some (replicate 247 (CHR ''a''))) \<rparr>"

subsection \<open>The three libraries and the two collaborators\<close>

text \<open>
  The message bus (sd-bus), the display connection (libwayland-client), the streaming
  loop (PipeWire), \<open>poll\<close>, the logger, and the screenshot and screencast modules of
  the portal, which \<open>main\<close> only initialises.  A function whose result \<open>main\<close> does not
  look at maps a world to a world.  \<open>sd_bus_open_user\<close> returns its result and the
  connection it stored; \<open>wl_display_connect\<close> and \<open>pw_loop_new\<close> return a pointer or
  NULL.  \<open>poll\<close> is always called on the three entries with no timeout and returns
  its result and the \<open>revents\<close> it wrote.
\<close>

datatype event_loop_fd = EVENT_LOOP_DBUS | EVENT_LOOP_WAYLAND | EVENT_LOOP_PIPEWIRE

record pollfd =
  pollfd_fd :: int
  pollfd_events :: "16 word"
  pollfd_revents :: "16 word"

type_synonym pollfds = "event_loop_fd \<Rightarrow> pollfd"

record 'w libs =
  lib_init_logger :: "loglevel \<Rightarrow> 'w \<Rightarrow> 'w"
  lib_sd_bus_open_user :: "'w \<Rightarrow> (int \<times> handle) \<times> 'w"
  lib_wl_display_connect :: "'w \<Rightarrow> handle option \<times> 'w"
  lib_pw_init :: "'w \<Rightarrow> 'w"
  lib_pw_loop_new :: "'w \<Rightarrow> handle option \<times> 'w"
  lib_xdpw_screenshot_init :: "xdpw_state \<Rightarrow> 'w \<Rightarrow> 'w"
  lib_xdpw_screencast_init :: "xdpw_state \<Rightarrow> string option \<Rightarrow> 'w \<Rightarrow> int \<times> 'w"
  lib_sd_bus_request_name :: "handle \<Rightarrow> string \<Rightarrow> 'w \<Rightarrow> int \<times> 'w"
  lib_sd_bus_get_fd :: "handle \<Rightarrow> 'w \<Rightarrow> int"
  lib_wl_display_get_fd :: "handle \<Rightarrow> 'w \<Rightarrow> int"
  lib_pw_loop_get_fd :: "handle \<Rightarrow> 'w \<Rightarrow> int"
  lib_poll :: "pollfds \<Rightarrow> 'w \<Rightarrow> (int \<times> (event_loop_fd \<Rightarrow> 16 word)) \<times> 'w"
  lib_sd_bus_process :: "handle \<Rightarrow> 'w \<Rightarrow> int \<times> 'w"
  lib_wl_display_dispatch :: "handle \<Rightarrow> 'w \<Rightarrow> int \<times> 'w"
  lib_pw_loop_iterate :: "handle \<Rightarrow> 'w \<Rightarrow> int \<times> 'w"
  lib_wl_display_dispatch_pending :: "handle \<Rightarrow> 'w \<Rightarrow> int \<times> 'w"
  lib_wl_display_flush :: "handle \<Rightarrow> 'w \<Rightarrow> 'w"
  lib_sd_bus_flush :: "handle \<Rightarrow> 'w \<Rightarrow> 'w"
  lib_sd_bus_unref :: "handle \<Rightarrow> 'w \<Rightarrow> 'w"
  lib_pw_loop_leave :: "handle \<Rightarrow> 'w \<Rightarrow> 'w"
  lib_pw_loop_destroy :: "handle \<Rightarrow> 'w \<Rightarrow> 'w"
  lib_wl_display_disconnect :: "handle \<Rightarrow> 'w \<Rightarrow> 'w"

definition init_logger :: "'w libs \<Rightarrow> loglevel \<Rightarrow> 'w st \<Rightarrow> 'w st" where
  "init_logger L lvl s = (lib_init_logger L lvl (fst s), snd s @ [Init_logger lvl])"

definition sd_bus_open_user :: "'w libs \<Rightarrow> 'w st \<Rightarrow> (int \<times> handle) \<times> 'w st" where
  "sd_bus_open_user L s =
     (case lib_sd_bus_open_user L (fst s) of
        ((ret, b), w') \<Rightarrow> ((ret, b), w', snd s @ [Sd_bus_open_user ret b]))"

definition wl_display_connect :: "'w libs \<Rightarrow> 'w st \<Rightarrow> handle option \<times> 'w st" where
  "wl_display_connect L s =
     (case lib_wl_display_connect L (fst s) of (r, w') \<Rightarrow> (r, w', snd s @ [Wl_display_connect r]))"

definition pw_init :: "'w libs \<Rightarrow> 'w st \<Rightarrow> 'w st" where
  "pw_init L s = (lib_pw_init L (fst s), snd s @ [Pw_init])"

definition pw_loop_new :: "'w libs \<Rightarrow> 'w st \<Rightarrow> handle option \<times> 'w st" where
  "pw_loop_new L s =
     (case lib_pw_loop_new L (fst s) of (r, w') \<Rightarrow> (r, w', snd s @ [Pw_loop_new r]))"

text \<open>\<open>wl_list_init(list)\<close> of wayland-util.c stores the address of the head in both
  of its pointers, \<open>list->prev = list; list->next = list\<close>, and touches nothing
  else.  \<open>wl_list_empty(list)\<close> is \<open>list->next == list\<close>.\<close>

definition wl_list_init :: "wl_list \<Rightarrow> 'w st \<Rightarrow> wl_list \<times> 'w st" where
  "wl_list_init list s =
     (list\<lparr>wl_list_prev := Self, wl_list_next := Self\<rparr>, fst s, snd s @ [Wl_list_init])"


text \<open>The two modules get a pointer to the state and keep it.  What they do to the
  list of sessions later on, from inside the calls of the loop, is part of the world;
  \<open>main\<close> itself reads nothing of the state but the three handles.\<close>

definition xdpw_screenshot_init :: "'w libs \<Rightarrow> xdpw_state \<Rightarrow> 'w st \<Rightarrow> 'w st" where
  "xdpw_screenshot_init L state s =
     (lib_xdpw_screenshot_init L state (fst s), snd s @ [Xdpw_screenshot_init state])"

definition xdpw_screencast_init ::
    "'w libs \<Rightarrow> xdpw_state \<Rightarrow> string option \<Rightarrow> 'w st \<Rightarrow> int \<times> 'w st" where
  "xdpw_screencast_init L state output_name s =
     (case lib_xdpw_screencast_init L state output_name (fst s) of
        (ret, w') \<Rightarrow> (ret, w', snd s @ [Xdpw_screencast_init state output_name ret]))"

text \<open>The name is always requested with
  \<open>SD_BUS_NAME_REPLACE_EXISTING | SD_BUS_NAME_ALLOW_REPLACEMENT\<close>.\<close>

definition sd_bus_request_name :: "'w libs \<Rightarrow> handle \<Rightarrow> string \<Rightarrow> 'w st \<Rightarrow> int \<times> 'w st" where
  "sd_bus_request_name L b name s =
     (case lib_sd_bus_request_name L b name (fst s) of
        (ret, w') \<Rightarrow> (ret, w', snd s @ [Sd_bus_request_name b name ret]))"

text \<open>\<open>poll\<close> writes the \<open>revents\<close> of every entry.\<close>

definition poll :: "'w libs \<Rightarrow> pollfds \<Rightarrow> 'w st \<Rightarrow> (int \<times> pollfds) \<times> 'w st" where
  "poll L pollfds s =
     (case lib_poll L pollfds (fst s) of
        ((ret, written), w') \<Rightarrow>
          ((ret, (\<lambda>i. (pollfds i)\<lparr>pollfd_revents := written i\<rparr>)), w',
           snd s @ [Poll ret]))"

definition sd_bus_process :: "'w libs \<Rightarrow> handle \<Rightarrow> 'w st \<Rightarrow> int \<times> 'w st" where
  "sd_bus_process L b s =
     (case lib_sd_bus_process L b (fst s) of
        (ret, w') \<Rightarrow> (ret, w', snd s @ [Sd_bus_process b ret]))"

definition wl_display_dispatch :: "'w libs \<Rightarrow> handle \<Rightarrow> 'w st \<Rightarrow> int \<times> 'w st" where
  "wl_display_dispatch L d s =
     (case lib_wl_display_dispatch L d (fst s) of
        (ret, w') \<Rightarrow> (ret, w', snd s @ [Wl_display_dispatch d ret]))"

text \<open>\<open>pw_loop_iterate\<close> is always called with timeout 0.\<close>

definition pw_loop_iterate :: "'w libs \<Rightarrow> handle \<Rightarrow> 'w st \<Rightarrow> int \<times> 'w st" where
  "pw_loop_iterate L p s =
     (case lib_pw_loop_iterate L p (fst s) of
        (ret, w') \<Rightarrow> (ret, w', snd s @ [Pw_loop_iterate p ret]))"

definition wl_display_dispatch_pending :: "'w libs \<Rightarrow> handle \<Rightarrow> 'w st \<Rightarrow> int \<times> 'w st" where
  "wl_display_dispatch_pending L d s =
     (case lib_wl_display_dispatch_pending L d (fst s) of
        (ret, w') \<Rightarrow> (ret, w', snd s @ [Wl_display_dispatch_pending d ret]))"

definition wl_display_flush :: "'w libs \<Rightarrow> handle \<Rightarrow> 'w st \<Rightarrow> 'w st" where
  "wl_display_flush L d s = (lib_wl_display_flush L d (fst s), snd s @ [Wl_display_flush d])"

definition sd_bus_flush :: "'w libs \<Rightarrow> handle \<Rightarrow> 'w st \<Rightarrow> 'w st" where
  "sd_bus_flush L b s = (lib_sd_bus_flush L b (fst s), snd s @ [Sd_bus_flush b])"

definition sd_bus_unref :: "'w libs \<Rightarrow> handle \<Rightarrow> 'w st \<Rightarrow> 'w st" where
  "sd_bus_unref L b s = (lib_sd_bus_unref L b (fst s), snd s @ [Sd_bus_unref b])"

definition pw_loop_leave :: "'w libs \<Rightarrow> handle \<Rightarrow> 'w st \<Rightarrow> 'w st" where
  "pw_loop_leave L p s = (lib_pw_loop_leave L p (fst s), snd s @ [Pw_loop_leave p])"

definition pw_loop_destroy :: "'w libs \<Rightarrow> handle \<Rightarrow> 'w st \<Rightarrow> 'w st" where
  "pw_loop_destroy L p s = (lib_pw_loop_destroy L p (fst s), snd s @ [Pw_loop_destroy p])"

definition wl_display_disconnect :: "'w libs \<Rightarrow> handle \<Rightarrow> 'w st \<Rightarrow> 'w st" where
  "wl_display_disconnect L d s =
     (lib_wl_display_disconnect L d (fst s), snd s @ [Wl_display_disconnect d])"

subsection \<open>Bootstrap: lines 146 to 211 of \<open>main\<close>\<close>

definition service_name :: string where
  "service_name = ''org.freedesktop.impl.portal.desktop.wlr''"

text \<open>
  How the start-up ends: \<open>main\<close> has returned an exit status, or it has jumped to the
  label \<open>error\<close> with the state built, or it stands before the loop with the state and
  the array \<open>pollfds\<close>.  The local variable \<open>bus\<close> is carried along: the label
  \<open>error\<close> uses it.
\<close>

datatype boot =
    Boot_exit int
  | Boot_error handle xdpw_state
  | Boot_ready handle xdpw_state pollfds

text \<open>Lines 174 to 183.  The initialiser names six members; the member
  \<open>xdpw_sessions\<close> it does not name is filled with zero bytes, two NULL pointers,
  which is not a list yet.  \<open>wl_list_init(&state.xdpw_sessions)\<close> then makes it the
  empty list.\<close>

definition state_initializer :: "xdpw_h \<Rightarrow> handle \<Rightarrow> handle \<Rightarrow> handle \<Rightarrow> xdpw_state" where
  "state_initializer H bus_p wl_display_p pw_loop_p =
     \<lparr> bus = bus_p, wl_display = wl_display_p, pw_loop = pw_loop_p,
       screencast_source_types = MONITOR H,
       screencast_cursor_modes = HIDDEN H OR EMBEDDED H,
       screencast_version = XDP_CAST_PROTO_VER H,
       xdpw_sessions = \<lparr> wl_list_prev = Null, wl_list_next = Null \<rparr> \<rparr>"

definition state_init :: "xdpw_h \<Rightarrow> handle \<Rightarrow> handle \<Rightarrow> handle \<Rightarrow> 'w st \<Rightarrow> xdpw_state \<times> 'w st" where
  "state_init H bus_p wl_display_p pw_loop_p s =
     (let state = state_initializer H bus_p wl_display_p pw_loop_p in
      case wl_list_init (xdpw_sessions state) s of
        (list, s1) \<Rightarrow> (state\<lparr>xdpw_sessions := list\<rparr>, s1))"

text \<open>Lines 198 to 211.\<close>

definition pollfds_init :: "'w libs \<Rightarrow> xdpw_state \<Rightarrow> 'w \<Rightarrow> pollfds" where
  "pollfds_init L state w =
     (\<lambda>i. case i of
        EVENT_LOOP_DBUS \<Rightarrow>
          \<lparr> pollfd_fd = lib_sd_bus_get_fd L (bus state) w,
            pollfd_events = POLLIN, pollfd_revents = 0 \<rparr>
      | EVENT_LOOP_WAYLAND \<Rightarrow>
          \<lparr> pollfd_fd = lib_wl_display_get_fd L (wl_display state) w,
            pollfd_events = POLLIN, pollfd_revents = 0 \<rparr>
      | EVENT_LOOP_PIPEWIRE \<Rightarrow>
          \<lparr> pollfd_fd = lib_pw_loop_get_fd L (pw_loop state) w,
            pollfd_events = POLLIN, pollfd_revents = 0 \<rparr>)"

definition bootstrap :: "'w libs \<Rightarrow> xdpw_h \<Rightarrow> string option \<Rightarrow> 'w st \<Rightarrow> boot \<times> 'w st" where
  "bootstrap L H output_name s =
     (case sd_bus_open_user L s of
        ((ret, bus_p), s1) \<Rightarrow>
          if ret < 0 then
            (Boot_exit EXIT_FAILURE,
             logprint ERROR ''dbus: failed to connect to user bus: %s'' [Arg_strerror (- ret)] s1)
          else
            (case wl_display_connect L (logprint DEBUG ''dbus: connected'' [] s1) of
               (None, s2) \<Rightarrow>
                 (Boot_exit EXIT_FAILURE,
                  sd_bus_unref L bus_p
                    (logprint ERROR ''wayland: failed to connect to display'' [] s2))
             | (Some wl_display_p, s2) \<Rightarrow>
                 (case pw_loop_new L
                         (pw_init L (logprint DEBUG ''wlroots: wl_display connected'' [] s2)) of
                    (None, s3) \<Rightarrow>
                      (Boot_exit EXIT_FAILURE,
                       sd_bus_unref L bus_p
                         (wl_display_disconnect L wl_display_p
                            (logprint ERROR ''pipewire: failed to create loop'' [] s3)))
                  | (Some pw_loop_p, s3) \<Rightarrow>
                      (case state_init H bus_p wl_display_p pw_loop_p
                              (logprint DEBUG ''pipewire: pw_loop created'' [] s3) of
                         (state, s4) \<Rightarrow>
                           (case xdpw_screencast_init L state output_name
                                   (xdpw_screenshot_init L state s4) of
                              (ret1, s5) \<Rightarrow>
                                if ret1 < 0 then
                                  (Boot_error bus_p state,
                                   logprint ERROR ''xdpw: failed to initialize screencast'' [] s5)
                                else
                                  (case sd_bus_request_name L bus_p service_name s5 of
                                     (ret2, s6) \<Rightarrow>
                                       if ret2 < 0 then
                                         (Boot_error bus_p state,
                                          logprint ERROR
                                            ''dbus: failed to acquire service name: %s''
                                            [Arg_strerror (- ret2)] s6)
                                       else
                                         (Boot_ready bus_p state
                                            (pollfds_init L state (fst s6)), s6)))))))"

subsection \<open>The event loop: lines 213 to 255\<close>

text \<open>A part of one pass either goes on or jumps to the label \<open>error\<close>.\<close>

datatype 'a step = Continue 'a | Goto_error 'a

text \<open>Lines 222 to 224: \<open>do ret = sd_bus_process(state.bus, NULL); while (ret > 0)\<close>.
  The result is the last \<open>ret\<close>; there is none when every call returns a positive
  number.\<close>

partial_function (option) sd_bus_process_loop ::
    "'w libs \<Rightarrow> handle \<Rightarrow> 'w st \<Rightarrow> (int \<times> 'w st) option" where
  "sd_bus_process_loop L b s =
     (case sd_bus_process L b s of
        (ret, s1) \<Rightarrow> if ret > 0 then sd_bus_process_loop L b s1 else Some (ret, s1))"

declare sd_bus_process_loop.simps [code]

text \<open>Lines 249 to 252: dispatch what is queued and flush, while something was
  dispatched.\<close>

partial_function (option) dispatch_pending_loop ::
    "'w libs \<Rightarrow> handle \<Rightarrow> 'w st \<Rightarrow> (int \<times> 'w st) option" where
  "dispatch_pending_loop L d s =
     (case wl_display_dispatch_pending L d s of
        (ret, s1) \<Rightarrow>
          (let s2 = wl_display_flush L d s1 in
           if ret > 0 then dispatch_pending_loop L d s2 else Some (ret, s2)))"

declare dispatch_pending_loop.simps [code]

definition ready :: "pollfds \<Rightarrow> event_loop_fd \<Rightarrow> bool" where
  "ready pollfds i = (pollfd_revents (pollfds i) AND POLLIN \<noteq> 0)"

text \<open>Lines 220 to 229.\<close>

definition dispatch_dbus :: "'w libs \<Rightarrow> xdpw_state \<Rightarrow> pollfds \<Rightarrow> 'w st \<Rightarrow> 'w st step option" where
  "dispatch_dbus L state pollfds s =
     (if ready pollfds EVENT_LOOP_DBUS then
        (case sd_bus_process_loop L (bus state)
                (logprint TRACE ''event-loop: got dbus event'' [] s) of
           None \<Rightarrow> None
         | Some (ret, s1) \<Rightarrow>
             if ret < 0 then
               Some (Goto_error
                 (logprint ERROR ''sd_bus_process failed: %s'' [Arg_strerror (- ret)] s1))
             else Some (Continue s1))
      else Some (Continue s))"

text \<open>Lines 231 to 238.\<close>

definition dispatch_wayland :: "'w libs \<Rightarrow> xdpw_state \<Rightarrow> pollfds \<Rightarrow> 'w st \<Rightarrow> 'w st step" where
  "dispatch_wayland L state pollfds s =
     (if ready pollfds EVENT_LOOP_WAYLAND then
        (case wl_display_dispatch L (wl_display state)
                (logprint TRACE ''event-loop: got wayland event'' [] s) of
           (ret, s1) \<Rightarrow>
             if ret < 0 then
               Goto_error
                 (logprint ERROR ''wl_display_dispatch failed: %s'' [Arg_strerror_errno] s1)
             else Continue s1)
      else Continue s)"

text \<open>Lines 240 to 247.\<close>

definition dispatch_pipewire :: "'w libs \<Rightarrow> xdpw_state \<Rightarrow> pollfds \<Rightarrow> 'w st \<Rightarrow> 'w st step" where
  "dispatch_pipewire L state pollfds s =
     (if ready pollfds EVENT_LOOP_PIPEWIRE then
        (case pw_loop_iterate L (pw_loop state)
                (logprint TRACE ''event-loop: got pipewire event'' [] s) of
           (ret, s1) \<Rightarrow>
             if ret < 0 then
               Goto_error
                 (logprint ERROR ''pw_loop_iterate failed: %s'' [Arg_spa_strerror ret] s1)
             else Continue s1)
      else Continue s)"

text \<open>One pass of the body of \<open>while (1)\<close>, lines 214 to 254.  The result carries the
  array \<open>pollfds\<close> as \<open>poll\<close> left it.\<close>

definition iteration ::
    "'w libs \<Rightarrow> xdpw_state \<Rightarrow> pollfds \<Rightarrow> 'w st \<Rightarrow> (pollfds \<times> 'w st) step option" where
  "iteration L state pollfds s =
     (case poll L pollfds s of
        ((ret, pollfds1), s1) \<Rightarrow>
          if ret < 0 then
            Some (Goto_error (pollfds1, logprint ERROR ''poll failed: %s'' [Arg_strerror_errno] s1))
          else
            (case dispatch_dbus L state pollfds1 s1 of
               None \<Rightarrow> None
             | Some (Goto_error s2) \<Rightarrow> Some (Goto_error (pollfds1, s2))
             | Some (Continue s2) \<Rightarrow>
                 (case dispatch_wayland L state pollfds1 s2 of
                    Goto_error s3 \<Rightarrow> Some (Goto_error (pollfds1, s3))
                  | Continue s3 \<Rightarrow>
                      (case dispatch_pipewire L state pollfds1 s3 of
                         Goto_error s4 \<Rightarrow> Some (Goto_error (pollfds1, s4))
                       | Continue s4 \<Rightarrow>
                           (case dispatch_pending_loop L (wl_display state) s4 of
                              None \<Rightarrow> None
                            | Some (ret1, s5) \<Rightarrow>
                                Some (Continue (pollfds1, sd_bus_flush L (bus state) s5)))))))"

text \<open>The loop, lines 213 to 255: its only exit is the jump to \<open>error\<close>; the result is
  the program state at that jump.\<close>

partial_function (option) event_loop ::
    "'w libs \<Rightarrow> xdpw_state \<Rightarrow> pollfds \<Rightarrow> 'w st \<Rightarrow> 'w st option" where
  "event_loop L state pollfds s =
     (case iteration L state pollfds s of
        None \<Rightarrow> None
      | Some (Goto_error (pollfds1, s1)) \<Rightarrow> Some s1
      | Some (Continue (pollfds1, s1)) \<Rightarrow> event_loop L state pollfds1 s1)"

declare event_loop.simps [code]

subsection \<open>The label \<open>error\<close> and \<open>main\<close>\<close>

text \<open>Lines 261 to 266, without the \<open>return\<close>.\<close>

definition error_exit :: "'w libs \<Rightarrow> handle \<Rightarrow> xdpw_state \<Rightarrow> 'w st \<Rightarrow> 'w st" where
  "error_exit L bus_p state s =
     wl_display_disconnect L (wl_display state)
       (pw_loop_destroy L (pw_loop state)
          (pw_loop_leave L (pw_loop state)
             (sd_bus_unref L bus_p s)))"

text \<open>Lines 213 to 266: the loop, then the label \<open>error\<close> and \<open>return EXIT_FAILURE\<close>.\<close>

definition multiplex ::
    "'w libs \<Rightarrow> handle \<Rightarrow> xdpw_state \<Rightarrow> pollfds \<Rightarrow> 'w st \<Rightarrow> (int \<times> 'w st) option" where
  "multiplex L bus_p state pollfds s =
     (case event_loop L state pollfds s of
        None \<Rightarrow> None
      | Some s1 \<Rightarrow> Some (EXIT_FAILURE, error_exit L bus_p state s1))"

text \<open>
  \<open>main\<close> from line 140 on.  The options \<open>getopt_long\<close> has read (lines 105 to 138)
  are arguments: the log level, the name of the output and the replace flag.
\<close>

definition main ::
    "'w libc \<Rightarrow> 'w libs \<Rightarrow> xdpw_h \<Rightarrow> loglevel \<Rightarrow> string option \<Rightarrow> bool \<Rightarrow> 'w st \<Rightarrow>
     (int \<times> 'w st) option" where
  "main S L H loglevel output_name replace_existing s =
     (case assert_only_one_xdpw_instance S replace_existing (init_logger L loglevel s) of
        None \<Rightarrow> None
      | Some (rc, s1) \<Rightarrow>
          if rc \<noteq> 0 then Some (EXIT_FAILURE, s1)
          else
            (case bootstrap L H output_name s1 of
               (Boot_exit status, s2) \<Rightarrow> Some (status, s2)
             | (Boot_error bus_p state, s2) \<Rightarrow> Some (EXIT_FAILURE, error_exit L bus_p state s2)
             | (Boot_ready bus_p state pollfds, s2) \<Rightarrow> multiplex L bus_p state pollfds s2))"

subsection \<open>Notions used to state the properties of the event loop\<close>

text \<open>The results of the first \<open>n\<close> calls of \<open>sd_bus_process\<close>, one after the other,
  from a world on; the same for \<open>wl_display_dispatch_pending\<close>, each followed by
  \<open>wl_display_flush\<close>.\<close>

fun bus_results :: "'w libs \<Rightarrow> handle \<Rightarrow> 'w \<Rightarrow> nat \<Rightarrow> int list" where
  "bus_results L b w 0 = []"
| "bus_results L b w (Suc n) =
     (case lib_sd_bus_process L b w of (r, w') \<Rightarrow> r # bus_results L b w' n)"

fun pending_results :: "'w libs \<Rightarrow> handle \<Rightarrow> 'w \<Rightarrow> nat \<Rightarrow> int list" where
  "pending_results L d w 0 = []"
| "pending_results L d w (Suc n) =
     (case lib_wl_display_dispatch_pending L d w of
        (r, w') \<Rightarrow> r # pending_results L d (lib_wl_display_flush L d w') n)"

text \<open>The world after \<open>n\<close> rounds of \<open>wl_display_dispatch_pending\<close> and
  \<open>wl_display_flush\<close>.\<close>

fun pending_world :: "'w libs \<Rightarrow> handle \<Rightarrow> 'w \<Rightarrow> nat \<Rightarrow> 'w" where
  "pending_world L d w 0 = w"
| "pending_world L d w (Suc n) =
     (case lib_wl_display_dispatch_pending L d w of
        (r, w') \<Rightarrow> pending_world L d (lib_wl_display_flush L d w') n)"

text \<open>The calls of the loop of lines 249 to 252 for a list of results.\<close>

definition drain_calls :: "handle \<Rightarrow> int list \<Rightarrow> call list" where
  "drain_calls d rs =
     concat (map (\<lambda>r. [Wl_display_dispatch_pending d r, Wl_display_flush d]) rs)"

text \<open>The calls of the three parts of the dispatch phase, for the results of the
  calls: nothing for a source that is not ready.\<close>

definition dbus_part :: "xdpw_state \<Rightarrow> pollfds \<Rightarrow> int list \<Rightarrow> call list" where
  "dbus_part state pollfds rs =
     (if ready pollfds EVENT_LOOP_DBUS
      then Logprint TRACE ''event-loop: got dbus event'' [] # map (Sd_bus_process (bus state)) rs
      else [])"

definition wayland_part :: "xdpw_state \<Rightarrow> pollfds \<Rightarrow> int \<Rightarrow> call list" where
  "wayland_part state pollfds r =
     (if ready pollfds EVENT_LOOP_WAYLAND
      then [Logprint TRACE ''event-loop: got wayland event'' [],
            Wl_display_dispatch (wl_display state) r]
      else [])"

definition pipewire_part :: "xdpw_state \<Rightarrow> pollfds \<Rightarrow> int \<Rightarrow> call list" where
  "pipewire_part state pollfds r =
     (if ready pollfds EVENT_LOOP_PIPEWIRE
      then [Logprint TRACE ''event-loop: got pipewire event'' [],
            Pw_loop_iterate (pw_loop state) r]
      else [])"

definition is_poll :: "call \<Rightarrow> bool" where
  "is_poll c = (case c of Poll _ \<Rightarrow> True | _ \<Rightarrow> False)"

definition is_sd_bus_process :: "call \<Rightarrow> bool" where
  "is_sd_bus_process c = (case c of Sd_bus_process _ _ \<Rightarrow> True | _ \<Rightarrow> False)"

definition is_wl_display_dispatch :: "call \<Rightarrow> bool" where
  "is_wl_display_dispatch c = (case c of Wl_display_dispatch _ _ \<Rightarrow> True | _ \<Rightarrow> False)"

definition is_pw_loop_iterate :: "call \<Rightarrow> bool" where
  "is_pw_loop_iterate c = (case c of Pw_loop_iterate _ _ \<Rightarrow> True | _ \<Rightarrow> False)"

text \<open>A call of the dispatch phase, lines 220 to 247, that did not fail.\<close>

definition is_dispatch :: "call \<Rightarrow> bool" where
  "is_dispatch c =
     (case c of
        Logprint lvl _ _ \<Rightarrow> lvl = TRACE
      | Sd_bus_process _ r \<Rightarrow> 0 \<le> r
      | Wl_display_dispatch _ r \<Rightarrow> 0 \<le> r
      | Pw_loop_iterate _ r \<Rightarrow> 0 \<le> r
      | _ \<Rightarrow> False)"

definition is_release :: "call \<Rightarrow> bool" where
  "is_release c =
     (case c of
        Sd_bus_unref _ \<Rightarrow> True
      | Pw_loop_leave _ \<Rightarrow> True
      | Pw_loop_destroy _ \<Rightarrow> True
      | Wl_display_disconnect _ \<Rightarrow> True
      | _ \<Rightarrow> False)"

definition is_wl_list_init :: "call \<Rightarrow> bool" where
  "is_wl_list_init c = (case c of Wl_list_init \<Rightarrow> True | _ \<Rightarrow> False)"

text \<open>The program state a step carries.\<close>

fun step_st :: "(pollfds \<times> 'w st) step \<Rightarrow> 'w st" where
  "step_st (Continue (pollfds, s)) = s"
| "step_st (Goto_error (pollfds, s)) = s"

fun step_pollfds :: "(pollfds \<times> 'w st) step \<Rightarrow> pollfds" where
  "step_pollfds (Continue (pollfds, s)) = pollfds"
| "step_pollfds (Goto_error (pollfds, s)) = pollfds"

subsection \<open>A simulated desktop\<close>

text \<open>
  A small world to run the start-up and the loop in.  The bus has a queue of requests;
  handling one request queues one display event, which makes the display file
  descriptor not readable.  \<open>poll\<close> reports the bus readable as long as \<open>wakeups\<close> is
  not zero, and fails afterwards.
\<close>

record desktop =
  bus_queue :: nat
  display_pending :: nat
  wakeups :: nat

definition sim_libs :: "desktop libs" where
  "sim_libs =
     \<lparr> lib_init_logger = (\<lambda>lvl w. w),
       lib_sd_bus_open_user = (\<lambda>w. ((0, 10), w)),
       lib_wl_display_connect = (\<lambda>w. (Some 20, w)),
       lib_pw_init = (\<lambda>w. w),
       lib_pw_loop_new = (\<lambda>w. (Some 30, w)),
       lib_xdpw_screenshot_init = (\<lambda>state w. w),
       lib_xdpw_screencast_init = (\<lambda>state output_name w. (0, w)),
       lib_sd_bus_request_name = (\<lambda>b name w. (1, w)),
       lib_sd_bus_get_fd = (\<lambda>b w. 4),
       lib_wl_display_get_fd = (\<lambda>d w. 5),
       lib_pw_loop_get_fd = (\<lambda>p w. 6),
       lib_poll = (\<lambda>pollfds w.
          if wakeups w = 0 then ((- 1, (\<lambda>i. 0)), w)
          else ((1, (\<lambda>i. if i = EVENT_LOOP_DBUS then POLLIN else 0)),
                w\<lparr>wakeups := wakeups w - 1\<rparr>)),
       lib_sd_bus_process = (\<lambda>b w.
          if bus_queue w = 0 then (0, w)
          else (1, w\<lparr>bus_queue := bus_queue w - 1, display_pending := display_pending w + 1\<rparr>)),
       lib_wl_display_dispatch = (\<lambda>d w. (int (display_pending w), w\<lparr>display_pending := 0\<rparr>)),
       lib_pw_loop_iterate = (\<lambda>p w. (0, w)),
       lib_wl_display_dispatch_pending =
         (\<lambda>d w. (int (display_pending w), w\<lparr>display_pending := 0\<rparr>)),
       lib_wl_display_flush = (\<lambda>d w. w),
       lib_sd_bus_flush = (\<lambda>b w. w),
       lib_sd_bus_unref = (\<lambda>b w. w),
       lib_pw_loop_leave = (\<lambda>p w. w),
       lib_pw_loop_destroy = (\<lambda>p w. w),
       lib_wl_display_disconnect = (\<lambda>d w. w) \<rparr>"

text \<open>Two requests are queued on the bus; \<open>poll\<close> succeeds once.\<close>

definition two_requests :: desktop where
  "two_requests = \<lparr> bus_queue = 2, display_pending = 0, wakeups = 1 \<rparr>"

text \<open>Variants: no compositor runs, PipeWire cannot create a loop.\<close>

definition sim_libs_no_display :: "desktop libs" where
  "sim_libs_no_display = sim_libs\<lparr> lib_wl_display_connect := (\<lambda>w. (None, w)) \<rparr>"

definition sim_libs_no_loop :: "desktop libs" where
  "sim_libs_no_loop = sim_libs\<lparr> lib_pw_loop_new := (\<lambda>w. (None, w)) \<rparr>"

text \<open>\<open>poll\<close> returns with no source ready.\<close>

definition sim_libs_idle :: "desktop libs" where
  "sim_libs_idle = sim_libs\<lparr> lib_poll := (\<lambda>pollfds w. ((0, (\<lambda>i. 0)), w)) \<rparr>"

text \<open>More variants: the bus connection is reset (\<open>sd_bus_process\<close> returns
  \<open>-ECONNRESET\<close>); \<open>poll\<close> reports all three sources ready, and the display or the
  streaming loop fails.\<close>

definition sim_libs_bus_error :: "desktop libs" where
  "sim_libs_bus_error = sim_libs\<lparr> lib_sd_bus_process := (\<lambda>b w. (- 104, w)) \<rparr>"

definition sim_libs_all_ready :: "desktop libs" where
  "sim_libs_all_ready = sim_libs\<lparr> lib_poll := (\<lambda>pollfds w. ((3, (\<lambda>i. POLLIN)), w)) \<rparr>"

definition sim_libs_display_error :: "desktop libs" where
  "sim_libs_display_error =
     sim_libs_all_ready\<lparr> lib_wl_display_dispatch := (\<lambda>d w. (- 1, w)) \<rparr>"

definition sim_libs_stream_error :: "desktop libs" where
  "sim_libs_stream_error = sim_libs_all_ready\<lparr> lib_pw_loop_iterate := (\<lambda>p w. (- 32, w)) \<rparr>"

text \<open>The header values of the portal: \<open>MONITOR = 1\<close>, \<open>HIDDEN = 1\<close>,
  \<open>EMBEDDED = 2\<close>, protocol version 2.\<close>

definition sim_h :: xdpw_h where
  "sim_h = \<lparr> MONITOR = 1, HIDDEN = 1, EMBEDDED = 2, XDP_CAST_PROTO_VER = 2 \<rparr>"

text \<open>The state and the array \<open>pollfds\<close> the start-up builds in the simulated
  desktop.\<close>

definition sim_state :: xdpw_state where
  "sim_state =
     \<lparr> bus = 10, wl_display = 20, pw_loop = 30, screencast_source_types = 1,
       screencast_cursor_modes = 3, screencast_version = 2,
       xdpw_sessions = \<lparr> wl_list_prev = Self, wl_list_next = Self \<rparr> \<rparr>"

definition sim_pollfds :: pollfds where
  "sim_pollfds = pollfds_init sim_libs sim_state two_requests"

text \<open>The same desktop when \<open>poll\<close> reports nothing any more and fails.\<close>

definition all_handled :: desktop where
  "all_handled = \<lparr> bus_queue = 0, display_pending = 0, wakeups = 0 \<rparr>"


section \<open>Properties of the lock code\<close>

text \<open>The path fits the buffer or is refused; then the branches of
  \<open>assert_only_one_xdpw_instance\<close>, one lemma each, and what every call appends to
  the log.\<close>

lemma NUL_notin_c_str: "NUL \<notin> set (c_str bs)"
  unfolding c_str_def by (metis (mono_tags, lifting) set_takeWhileD)

lemma take_strlen: "take (strlen bs) bs = c_str bs"
  unfolding strlen_def c_str_def by (simp add: takeWhile_eq_take [symmetric])

lemma strlen_le: "strlen bs \<le> length bs"
  unfolding strlen_def c_str_def by (rule length_takeWhile_le)

lemma buffer_str_terminated:
  "NUL \<notin> set xs \<Longrightarrow> buffer_str (map Some xs @ Some NUL # rest) = Some xs"
  by (induction xs) auto

lemma NUL_notin_pidfdname: "NUL \<notin> set pidfdname"
  by (simp add: pidfdname_def NUL_def)

lemma memcpy_prefix:
  "strlen p \<le> n \<Longrightarrow>
   memcpy (replicate n None) 0 p (strlen p) = Some (map Some (c_str p) @ replicate (n - strlen p) None)"
  by (simp add: memcpy_def strlen_le take_strlen)

lemma memcpy_suffix:
  "length xs + length ys \<le> n \<Longrightarrow>
   memcpy (map Some xs @ replicate (n - length xs) None) (length xs) ys (length ys) =
     Some (map Some xs @ map Some ys @ replicate (n - length xs - length ys) None)"
  by (simp add: memcpy_def)

lemma open_pidfd_eq:
  "open_pidfd S s =
     Some (if strlen (runtime_prefix S (fst s)) + 10 > 256 then (Inl EOVERFLOW, s)
           else sys_open S (c_str (runtime_prefix S (fst s)) @ ''/xdpw.pid'') s)"
proof -
  define p where "p = runtime_prefix S (fst s)"
  define n where "n = sizeof_filename"
  define sfx where "sfx = pidfdname @ [NUL]"
  have sz: "sizeof_pidfdname = length sfx" "n = 256" "length sfx = 10"
    by (simp_all add: sizeof_pidfdname_def sfx_def n_def sizeof_filename_def pidfdname_def)
  show ?thesis
  proof (cases "strlen p + sizeof_pidfdname > n")
    case True
    then show ?thesis
      unfolding open_pidfd_def Let_def runtime_prefix_def [symmetric] p_def [symmetric]
        n_def [symmetric]
      by (simp add: sz)
  next
    case False
    then have le: "strlen p \<le> n" "length (c_str p) + length sfx \<le> n"
      by (simp_all add: strlen_def sz)
    have m1: "memcpy (replicate n None) 0 p (strlen p) =
        Some (map Some (c_str p) @ replicate (n - length (c_str p)) None)"
      using memcpy_prefix [OF le(1)] by (simp add: strlen_def)
    have m2: "memcpy (map Some (c_str p) @ replicate (n - length (c_str p)) None)
          (strlen p) sfx sizeof_pidfdname =
        Some (map Some (c_str p) @ map Some sfx @
              replicate (n - length (c_str p) - length sfx) None)"
      using memcpy_suffix [OF le(2)] by (simp add: strlen_def sz)
    have b: "buffer_str (map Some (c_str p) @ map Some sfx @
              replicate (n - length (c_str p) - length sfx) None) =
        Some (c_str p @ pidfdname)"
      using buffer_str_terminated [of "c_str p @ pidfdname"] NUL_notin_c_str [of p]
        NUL_notin_pidfdname by (simp add: sfx_def)
    have "open_pidfd S s = Some (sys_open S (c_str p @ pidfdname) s)"
      unfolding open_pidfd_def Let_def runtime_prefix_def [symmetric] p_def [symmetric]
        n_def [symmetric] sfx_def [symmetric]
      using False by (simp only: if_False m1 m2 b option.case)
    with False show ?thesis
      by (simp add: p_def sz pidfdname_def)
  qed
qed


lemma sprintf_4711: "sprintf_d 4711 = ''4711''"
  by (simp add: sprintf_d_def string_of_nat.simps digit_char_def)

lemma open_pidfd_fits:
  "path_fits S (fst s) \<Longrightarrow> open_pidfd S s = Some (sys_open S (pidfile_path S (fst s)) s)"
  by (simp add: open_pidfd_eq path_fits_def pidfile_path_def sizeof_pidfdname_def
      sizeof_filename_def pidfdname_def)

lemma open_pidfd_too_long:
  "\<not> path_fits S (fst s) \<Longrightarrow> open_pidfd S s = Some (Inl EOVERFLOW, s)"
  by (simp add: open_pidfd_eq path_fits_def sizeof_pidfdname_def
      sizeof_filename_def pidfdname_def)

lemma acquire_open_failed:
  "open_pidfd S s = Some (Inl e, s1) \<Longrightarrow>
   assert_only_one_xdpw_instance S r s =
     Some (- 1, logprint ERROR ''Failed to open pid file: %s\<newline>'' [Arg_strerror e] s1)"
  by (subst assert_only_one_xdpw_instance.simps) simp

lemma acquire_lock_failed:
  "open_pidfd S s = Some (Inr fd, s1) \<Longrightarrow> sys_flock S fd s1 = (Inl e, s2) \<Longrightarrow>
   e \<noteq> EWOULDBLOCK \<Longrightarrow>
   assert_only_one_xdpw_instance S r s =
     Some (- 1, logprint ERROR ''Failed to lock pid file: %s\<newline>'' [Arg_strerror e] s2)"
  by (subst assert_only_one_xdpw_instance.simps) simp

lemma acquire_read_failed:
  "open_pidfd S s = Some (Inr fd, s1) \<Longrightarrow> sys_flock S fd s1 = (Inl EWOULDBLOCK, s2) \<Longrightarrow>
   sys_read S fd 15 s2 = (Inl e, s3) \<Longrightarrow>
   assert_only_one_xdpw_instance S r s =
     Some (- 1, logprint ERROR ''Another instance is already running\<newline>'' [] s3)"
  by (subst assert_only_one_xdpw_instance.simps) simp

lemma acquire_running:
  "open_pidfd S s = Some (Inr fd, s1) \<Longrightarrow> sys_flock S fd s1 = (Inl EWOULDBLOCK, s2) \<Longrightarrow>
   sys_read S fd 15 s2 = (Inr bytes, s3) \<Longrightarrow>
   assert_only_one_xdpw_instance S False s =
     Some (- 1, logprint ERROR ''Another instance is already running with pid %s\<newline>''
                  [Arg_str (c_str bytes)] s3)"
  by (subst assert_only_one_xdpw_instance.simps) simp





lemma acquire_locked:
  "open_pidfd S s = Some (Inr fd, s1) \<Longrightarrow> sys_flock S fd s1 = (Inr u, s2) \<Longrightarrow>
   assert_only_one_xdpw_instance S r s = Some (0, write_pid S fd s2)"
  by (subst assert_only_one_xdpw_instance.simps) simp

lemmas sys_defs = sys_open_def sys_flock_def sys_read_def sys_kill_def sys_sleep_def
  sys_close_def sys_ftruncate_def sys_write_def sys_fsync_def logprint_def












lemma c_str_no_NUL: "NUL \<notin> set bs \<Longrightarrow> c_str bs = bs"
  by (auto simp: c_str_def)

lemma run_user_path [simp]:
  "os_getenv S ''XDG_RUNTIME_DIR'' w = Some ''/run/user/1000'' \<Longrightarrow> path_fits S w"
  "os_getenv S ''XDG_RUNTIME_DIR'' w = Some ''/run/user/1000'' \<Longrightarrow>
     pidfile_path S w = ''/run/user/1000/xdpw.pid''"
  by (simp_all add: path_fits_def pidfile_path_def runtime_prefix_def strlen_def c_str_def NUL_def
      sizeof_pidfdname_def sizeof_filename_def pidfdname_def)

lemma sim_sel [simp]:
  "os_getenv (sim_libc self) ''XDG_RUNTIME_DIR'' w = Some ''/run/user/1000''"
  "os_getpid (sim_libc self) w = self"
  "os_open (sim_libc self) path w = (Inr 3, w)"
  "os_flock (sim_libc self) fd w =
     (case lock_holder w of
        None \<Rightarrow> (Inr (), w\<lparr>lock_holder := Some self\<rparr>)
      | Some p \<Rightarrow> if p = self then (Inr (), w) else (Inl EWOULDBLOCK, w))"
  "os_read (sim_libc self) fd w = (Inr (file_content w), w)"
  "os_kill (sim_libc self) pid sig w =
     (if pid = self \<or> pid = 0 \<or> pid = - self then None
      else if sig = SIGKILL \<and> (lock_holder w = Some pid \<or> pid = - 1)
      then Some (w\<lparr>lock_holder := None\<rparr>)
      else Some w)"
  "os_sleep (sim_libc self) seconds w = w"
  "os_close (sim_libc self) fd w = w"
  "os_ftruncate (sim_libc self) fd len w = (Inr (), w\<lparr>file_content := take len (file_content w)\<rparr>)"
  "os_write (sim_libc self) fd bytes w =
     (Inr (length bytes), w\<lparr>file_content := file_content w @ bytes\<rparr>)"
  "os_fsync (sim_libc self) fd w = (Inr (), w)"
  by (simp_all add: sim_libc_def)

lemmas sim_variants = sim_libc_disk_full_def sim_libc_unreadable_def sim_libc_unkillable_def
  sim_libc_no_access_def sim_libc_no_locks_def

lemma long_dir_too_long [simp]: "\<not> path_fits (sim_libc_long_dir self) w"
  by (simp add: path_fits_def runtime_prefix_def sim_libc_long_dir_def strlen_def c_str_def
      NUL_def sizeof_pidfdname_def sizeof_filename_def pidfdname_def)

lemmas atoi_eval = atoi_def strtol_def int_of_long_def LONG_MAX_def isspace_def isdigit_def
  c_str_def NUL_def Let_def

lemmas sim_eval = open_pidfd_fits sys_defs stale_1234_def held_by_1234_def write_pid_def
  sprintf_4711 atoi_eval EWOULDBLOCK_def

lemma open_pidfd_os:
  "path_fits S w \<Longrightarrow> os_open S (pidfile_path S w) w = (r, w1) \<Longrightarrow>
   open_pidfd S (w, t) = Some (r, w1, t @ [Open (pidfile_path S w) r])"
  by (simp add: open_pidfd_fits sys_open_def)

lemma sys_flock_os:
  "os_flock S fd w = (r, w') \<Longrightarrow> sys_flock S fd (w, t) = (r, w', t @ [Flock fd r])"
  by (simp add: sys_flock_def)

lemma sys_read_os_Inl:
  "os_read S fd w = (Inl e, w') \<Longrightarrow>
   sys_read S fd n (w, t) = (Inl e, w', t @ [Read fd n (Inl e)])"
  by (simp add: sys_read_def Let_def)

lemma sys_read_os_Inr:
  "os_read S fd w = (Inr bytes, w') \<Longrightarrow>
   sys_read S fd n (w, t) = (Inr (take n bytes), w', t @ [Read fd n (Inr (take n bytes))])"
  by (simp add: sys_read_def Let_def)

section \<open>Properties of the event loop\<close>

text \<open>What the two inner loops append to the log when they end, and from that the
  shape of the log of one pass, by the way the pass ends.\<close>

lemmas lib_defs = init_logger_def sd_bus_open_user_def wl_display_connect_def pw_init_def
  pw_loop_new_def wl_list_init_def xdpw_screenshot_init_def xdpw_screencast_init_def
  sd_bus_request_name_def poll_def sd_bus_process_def wl_display_dispatch_def
  pw_loop_iterate_def wl_display_dispatch_pending_def wl_display_flush_def sd_bus_flush_def
  sd_bus_unref_def pw_loop_leave_def pw_loop_destroy_def wl_display_disconnect_def logprint_def

lemma bus_loop_result_aux:
  assumes "sd_bus_process_loop L b s = Some y"
  shows "\<exists>rs. bus_results L b (fst s) (Suc (length rs)) = rs @ [fst y] \<and>
           snd (snd y) = snd s @ map (Sd_bus_process b) (rs @ [fst y]) \<and>
           (\<forall>x\<in>set rs. 0 < x) \<and> fst y \<le> 0"
proof (rule sd_bus_process_loop.raw_induct [where P = "\<lambda>L b s y.
    \<exists>rs. bus_results L b (fst s) (Suc (length rs)) = rs @ [fst y] \<and>
           snd (snd y) = snd s @ map (Sd_bus_process b) (rs @ [fst y]) \<and>
           (\<forall>x\<in>set rs. 0 < x) \<and> fst y \<le> 0", OF _ assms], goal_cases)
  case (1 loop L b s y)
  obtain ret s1 where c: "sd_bus_process L b s = (ret, s1)" by (cases "sd_bus_process L b s")
  then have o: "lib_sd_bus_process L b (fst s) = (ret, fst s1)"
      and t: "snd s1 = snd s @ [Sd_bus_process b ret]"
    by (auto simp: sd_bus_process_def split: prod.splits)
  show ?case
  proof (cases "0 < ret")
    case True
    with 1(2) c have "loop L b s1 = Some y" by simp
    from 1(1) [OF this] obtain rs where
      rs: "bus_results L b (fst s1) (Suc (length rs)) = rs @ [fst y]"
        "snd (snd y) = snd s1 @ map (Sd_bus_process b) (rs @ [fst y])"
        "\<forall>x\<in>set rs. 0 < x" "fst y \<le> 0" by blast
    show ?thesis
      by (rule exI [of _ "ret # rs"]) (use rs o t True in simp)
  next
    case False
    with 1(2) c have "y = (ret, s1)" by simp
    then show ?thesis
      by (intro exI [of _ "[]"]) (use o t False in simp)
  qed
qed

lemma bus_loop_result:
  "sd_bus_process_loop L b (w, t) = Some (ret, w', t') \<Longrightarrow>
   \<exists>rs. bus_results L b w (Suc (length rs)) = rs @ [ret] \<and>
        t' = t @ map (Sd_bus_process b) (rs @ [ret]) \<and> (\<forall>x\<in>set rs. 0 < x) \<and> ret \<le> 0"
  using bus_loop_result_aux [of L b "(w, t)" "(ret, w', t')"] by simp

lemma pending_loop_result_aux:
  assumes "dispatch_pending_loop L d s = Some y"
  shows "\<exists>rs. pending_results L d (fst s) (Suc (length rs)) = rs @ [fst y] \<and>
           snd (snd y) = snd s @ drain_calls d (rs @ [fst y]) \<and>
           (\<forall>x\<in>set rs. 0 < x) \<and> fst y \<le> 0"
proof (rule dispatch_pending_loop.raw_induct [where P = "\<lambda>L d s y.
    \<exists>rs. pending_results L d (fst s) (Suc (length rs)) = rs @ [fst y] \<and>
           snd (snd y) = snd s @ drain_calls d (rs @ [fst y]) \<and>
           (\<forall>x\<in>set rs. 0 < x) \<and> fst y \<le> 0", OF _ assms], goal_cases)
  case (1 loop L d s y)
  obtain ret s1 where c: "wl_display_dispatch_pending L d s = (ret, s1)"
    by (cases "wl_display_dispatch_pending L d s")
  define s2 where "s2 = wl_display_flush L d s1"
  from c have o: "lib_wl_display_dispatch_pending L d (fst s) = (ret, fst s1)"
      and t: "snd s2 = snd s @ [Wl_display_dispatch_pending d ret, Wl_display_flush d]"
      and w: "fst s2 = lib_wl_display_flush L d (fst s1)"
    by (auto simp: wl_display_dispatch_pending_def wl_display_flush_def s2_def split: prod.splits)
  show ?case
  proof (cases "0 < ret")
    case True
    with 1(2) c have "loop L d s2 = Some y" by (simp add: s2_def Let_def)
    from 1(1) [OF this] obtain rs where
      rs: "pending_results L d (fst s2) (Suc (length rs)) = rs @ [fst y]"
        "snd (snd y) = snd s2 @ drain_calls d (rs @ [fst y])"
        "\<forall>x\<in>set rs. 0 < x" "fst y \<le> 0" by blast
    show ?thesis
      by (rule exI [of _ "ret # rs"]) (use rs o t w True in \<open>simp add: drain_calls_def\<close>)
  next
    case False
    with 1(2) c have "y = (ret, s2)" by (simp add: s2_def Let_def)
    then show ?thesis
      by (intro exI [of _ "[]"]) (use o t w False in \<open>simp add: drain_calls_def\<close>)
  qed
qed

lemma pending_loop_result:
  "dispatch_pending_loop L d (w, t) = Some (ret, w', t') \<Longrightarrow>
   \<exists>rs. pending_results L d w (Suc (length rs)) = rs @ [ret] \<and>
        t' = t @ drain_calls d (rs @ [ret]) \<and> (\<forall>x\<in>set rs. 0 < x) \<and> ret \<le> 0"
  using pending_loop_result_aux [of L d "(w, t)" "(ret, w', t')"] by simp

text \<open>The loop of lines 249 to 252 returns as soon as a call reports that nothing was
  dispatched.\<close>

lemma pending_loop_returns:
  "pending_results L d w (Suc (length ds)) = ds @ [dl] \<Longrightarrow> \<forall>r\<in>set ds. 0 < r \<Longrightarrow> dl \<le> 0 \<Longrightarrow>
   dispatch_pending_loop L d (w, t) =
     Some (dl, pending_world L d w (Suc (length ds)), t @ drain_calls d (ds @ [dl]))"
proof (induction ds arbitrary: w t)
  case Nil
  obtain r w' where c: "lib_wl_display_dispatch_pending L d w = (r, w')"
    by (cases "lib_wl_display_dispatch_pending L d w")
  with Nil show ?case
    by (subst dispatch_pending_loop.simps)
      (simp add: wl_display_dispatch_pending_def wl_display_flush_def drain_calls_def)
next
  case (Cons a ds)
  obtain r w' where c: "lib_wl_display_dispatch_pending L d w = (r, w')"
    by (cases "lib_wl_display_dispatch_pending L d w")
  with Cons.prems have a: "r = a" "0 < a"
    and rest: "pending_results L d (lib_wl_display_flush L d w') (Suc (length ds)) = ds @ [dl]"
      "\<forall>r\<in>set ds. 0 < r"
    by simp_all
  note ih = Cons.IH [OF rest Cons.prems(3),
      of "t @ [Wl_display_dispatch_pending d a, Wl_display_flush d]"]
  show ?case
    by (subst dispatch_pending_loop.simps)
      (use c a ih in \<open>simp add: wl_display_dispatch_pending_def wl_display_flush_def
        drain_calls_def\<close>)
qed


lemma dispatch_dbus_shape:
  assumes "dispatch_dbus L st pfds (w, t) = Some r"
  shows "\<exists>ps x w'. (\<forall>p\<in>set ps. 0 < p) \<and> x \<le> 0 \<and>
      (ready pfds EVENT_LOOP_DBUS \<longrightarrow> bus_results L (bus st) w (Suc (length ps)) = ps @ [x]) \<and>
      r = (if x < 0
           then Goto_error (w', t @ dbus_part st pfds (ps @ [x]) @
                  [Logprint ERROR ''sd_bus_process failed: %s'' [Arg_strerror (- x)]])
           else Continue (w', t @ dbus_part st pfds (ps @ [x])))"
proof (cases "ready pfds EVENT_LOOP_DBUS")
  case False
  with assms have "r = Continue (w, t)" by (simp add: dispatch_dbus_def)
  with False show ?thesis
    by (intro exI [of _ "[]"] exI [of _ 0] exI [of _ w]) (simp add: dbus_part_def)
next
  case True
  with assms obtain x w' t' where
    l: "sd_bus_process_loop L (bus st) (w, t @ [Logprint TRACE ''event-loop: got dbus event'' []]) =
          Some (x, w', t')"
    and r: "r = (if x < 0
           then Goto_error (w', t' @ [Logprint ERROR ''sd_bus_process failed: %s'' [Arg_strerror (- x)]])
           else Continue (w', t'))"
    by (auto simp: dispatch_dbus_def logprint_def split: option.splits if_splits)
  from bus_loop_result [OF l] obtain ps where
    ps: "bus_results L (bus st) w (Suc (length ps)) = ps @ [x]"
      "t' = (t @ [Logprint TRACE ''event-loop: got dbus event'' []]) @
              map (Sd_bus_process (bus st)) (ps @ [x])"
      "\<forall>p\<in>set ps. 0 < p" "x \<le> 0" by blast
  show ?thesis
    by (rule exI [of _ ps], rule exI [of _ x], rule exI [of _ w'])
      (use ps r True in \<open>simp add: dbus_part_def\<close>)
qed

lemma dispatch_wayland_shape:
  "\<exists>x w'. dispatch_wayland L st pfds (w, t) =
      (if x < 0
       then Goto_error (w', t @ wayland_part st pfds x @
              [Logprint ERROR ''wl_display_dispatch failed: %s'' [Arg_strerror_errno]])
       else Continue (w', t @ wayland_part st pfds x)) \<and>
      (x < 0 \<longrightarrow> ready pfds EVENT_LOOP_WAYLAND)"
proof (cases "ready pfds EVENT_LOOP_WAYLAND")
  case False
  then show ?thesis
    by (intro exI [of _ 0] exI [of _ w]) (simp add: dispatch_wayland_def wayland_part_def)
next
  case True
  obtain x w' where "lib_wl_display_dispatch L (wl_display st) w = (x, w')"
    by (cases "lib_wl_display_dispatch L (wl_display st) w")
  with True show ?thesis
    by (intro exI [of _ x] exI [of _ w'])
      (simp add: dispatch_wayland_def wayland_part_def wl_display_dispatch_def logprint_def)
qed

lemma dispatch_pipewire_shape:
  "\<exists>x w'. dispatch_pipewire L st pfds (w, t) =
      (if x < 0
       then Goto_error (w', t @ pipewire_part st pfds x @
              [Logprint ERROR ''pw_loop_iterate failed: %s'' [Arg_spa_strerror x]])
       else Continue (w', t @ pipewire_part st pfds x)) \<and>
      (x < 0 \<longrightarrow> ready pfds EVENT_LOOP_PIPEWIRE)"
proof (cases "ready pfds EVENT_LOOP_PIPEWIRE")
  case False
  then show ?thesis
    by (intro exI [of _ 0] exI [of _ w]) (simp add: dispatch_pipewire_def pipewire_part_def)
next
  case True
  obtain x w' where "lib_pw_loop_iterate L (pw_loop st) w = (x, w')"
    by (cases "lib_pw_loop_iterate L (pw_loop st) w")
  with True show ?thesis
    by (intro exI [of _ x] exI [of _ w'])
      (simp add: dispatch_pipewire_def pipewire_part_def pw_loop_iterate_def logprint_def)
qed

text \<open>What one pass appends to the log, by the way it ends.\<close>

lemma iteration_cases:
  assumes "iteration L st pfds (w, t) = Some res"
    and "poll L pfds (w, t) = ((ret, pfds1), w1, t1)"
  obtains
    (poll_failed) "ret < 0"
      "res = Goto_error (pfds1, w1, t @ [Poll ret, Logprint ERROR ''poll failed: %s'' [Arg_strerror_errno]])"
  | (bus_failed) ps x w' where "0 \<le> ret" "ready pfds1 EVENT_LOOP_DBUS" "\<forall>p\<in>set ps. 0 < p" "x < 0"
      "bus_results L (bus st) w1 (Suc (length ps)) = ps @ [x]"
      "res = Goto_error (pfds1, w', t @ Poll ret # dbus_part st pfds1 (ps @ [x]) @
              [Logprint ERROR ''sd_bus_process failed: %s'' [Arg_strerror (- x)]])"
  | (wayland_failed) ps y w' where "0 \<le> ret" "\<forall>p\<in>set ps. 0 < p" "y < 0"
      "ready pfds1 EVENT_LOOP_DBUS \<longrightarrow> bus_results L (bus st) w1 (Suc (length ps)) = ps @ [0]"
      "ready pfds1 EVENT_LOOP_WAYLAND"
      "res = Goto_error (pfds1, w', t @ Poll ret # dbus_part st pfds1 (ps @ [0]) @
              wayland_part st pfds1 y @
              [Logprint ERROR ''wl_display_dispatch failed: %s'' [Arg_strerror_errno]])"
  | (pipewire_failed) ps y z w' where "0 \<le> ret" "\<forall>p\<in>set ps. 0 < p" "0 \<le> y" "z < 0"
      "ready pfds1 EVENT_LOOP_DBUS \<longrightarrow> bus_results L (bus st) w1 (Suc (length ps)) = ps @ [0]"
      "ready pfds1 EVENT_LOOP_PIPEWIRE"
      "res = Goto_error (pfds1, w', t @ Poll ret # dbus_part st pfds1 (ps @ [0]) @
              wayland_part st pfds1 y @ pipewire_part st pfds1 z @
              [Logprint ERROR ''pw_loop_iterate failed: %s'' [Arg_spa_strerror z]])"
  | (continue) ps y z ds dl w4 w' where "0 \<le> ret" "\<forall>p\<in>set ps. 0 < p" "0 \<le> y" "0 \<le> z"
      "\<forall>r\<in>set ds. 0 < r" "dl \<le> 0"
      "ready pfds1 EVENT_LOOP_DBUS \<longrightarrow> bus_results L (bus st) w1 (Suc (length ps)) = ps @ [0]"
      "pending_results L (wl_display st) w4 (Suc (length ds)) = ds @ [dl]"
      "res = Continue (pfds1, w', t @ Poll ret # dbus_part st pfds1 (ps @ [0]) @
              wayland_part st pfds1 y @ pipewire_part st pfds1 z @
              drain_calls (wl_display st) (ds @ [dl]) @ [Sd_bus_flush (bus st)])"
proof -
  from assms(2) have t1: "t1 = t @ [Poll ret]"
    by (auto simp: poll_def split: prod.splits)
  show thesis
  proof (cases "ret < 0")
    case True
    with assms t1 have "res = Goto_error (pfds1, w1, t @ [Poll ret,
        Logprint ERROR ''poll failed: %s'' [Arg_strerror_errno]])"
      by (simp add: iteration_def logprint_def)
    with True show thesis by (rule poll_failed)
  next
    case False
    then have ret: "0 \<le> ret" by simp
    from assms False obtain r2 where
      d: "dispatch_dbus L st pfds1 (w1, t1) = Some r2"
      by (auto simp: iteration_def split: option.splits)
    from dispatch_dbus_shape [OF d] obtain ps x w2 where
      b: "\<forall>p\<in>set ps. 0 < p" "x \<le> 0"
        "ready pfds1 EVENT_LOOP_DBUS \<longrightarrow> bus_results L (bus st) w1 (Suc (length ps)) = ps @ [x]"
        "r2 = (if x < 0
           then Goto_error (w2, t1 @ dbus_part st pfds1 (ps @ [x]) @
                  [Logprint ERROR ''sd_bus_process failed: %s'' [Arg_strerror (- x)]])
           else Continue (w2, t1 @ dbus_part st pfds1 (ps @ [x])))" by blast
    show thesis
    proof (cases "x < 0")
      case True
      have rdy: "ready pfds1 EVENT_LOOP_DBUS"
      proof (rule ccontr)
        assume "\<not> ready pfds1 EVENT_LOOP_DBUS"
        with d have "r2 = Continue (w1, t1)" by (simp add: dispatch_dbus_def)
        with b(4) True show False by simp
      qed
      from assms False d b(4) True t1 have
        "res = Goto_error (pfds1, w2, t @ Poll ret # dbus_part st pfds1 (ps @ [x]) @
              [Logprint ERROR ''sd_bus_process failed: %s'' [Arg_strerror (- x)]])"
        by (simp add: iteration_def)
      with ret rdy b True show thesis by (intro bus_failed [of ps x w2]) simp_all
    next
      case x0: False
      with b(2) have x: "x = 0" by simp
      define t2 where "t2 = t1 @ dbus_part st pfds1 (ps @ [0])"
      from b(4) x have r2: "r2 = Continue (w2, t2)" by (simp add: t2_def)
      from dispatch_wayland_shape [of L st pfds1 w2 t2] obtain y w3 where
        wl: "dispatch_wayland L st pfds1 (w2, t2) =
          (if y < 0
           then Goto_error (w3, t2 @ wayland_part st pfds1 y @
              [Logprint ERROR ''wl_display_dispatch failed: %s'' [Arg_strerror_errno]])
           else Continue (w3, t2 @ wayland_part st pfds1 y))"
          "y < 0 \<longrightarrow> ready pfds1 EVENT_LOOP_WAYLAND" by blast
      show thesis
      proof (cases "y < 0")
        case True
        from assms False d r2 wl True t1 have
          "res = Goto_error (pfds1, w3, t @ Poll ret # dbus_part st pfds1 (ps @ [0]) @
              wayland_part st pfds1 y @
              [Logprint ERROR ''wl_display_dispatch failed: %s'' [Arg_strerror_errno]])"
          by (simp add: iteration_def t2_def)
        with ret b x True wl(2) show thesis by (intro wayland_failed [of ps y w3]) simp_all
      next
        case y0: False
        define t3 where "t3 = t2 @ wayland_part st pfds1 y"
        from wl y0 have r3: "dispatch_wayland L st pfds1 (w2, t2) = Continue (w3, t3)"
          by (simp add: t3_def)
        from dispatch_pipewire_shape [of L st pfds1 w3 t3] obtain z w4 where
          pw: "dispatch_pipewire L st pfds1 (w3, t3) =
            (if z < 0
             then Goto_error (w4, t3 @ pipewire_part st pfds1 z @
                [Logprint ERROR ''pw_loop_iterate failed: %s'' [Arg_spa_strerror z]])
             else Continue (w4, t3 @ pipewire_part st pfds1 z))"
            "z < 0 \<longrightarrow> ready pfds1 EVENT_LOOP_PIPEWIRE" by blast
        show thesis
        proof (cases "z < 0")
          case True
          from assms False d r2 r3 pw True t1 have
            "res = Goto_error (pfds1, w4, t @ Poll ret # dbus_part st pfds1 (ps @ [0]) @
              wayland_part st pfds1 y @ pipewire_part st pfds1 z @
              [Logprint ERROR ''pw_loop_iterate failed: %s'' [Arg_spa_strerror z]])"
            by (simp add: iteration_def t2_def t3_def)
          with ret b x y0 True pw(2) show thesis
            by (intro pipewire_failed [of ps y z w4]) simp_all
        next
          case z0: False
          define t4 where "t4 = t3 @ pipewire_part st pfds1 z"
          from pw z0 have r4: "dispatch_pipewire L st pfds1 (w3, t3) = Continue (w4, t4)"
            by (simp add: t4_def)
          from assms False d r2 r3 r4 obtain dl w5 t5 where
            l: "dispatch_pending_loop L (wl_display st) (w4, t4) = Some (dl, w5, t5)"
            and res: "res = Continue (pfds1, sd_bus_flush L (bus st) (w5, t5))"
            by (auto simp: iteration_def split: option.splits)
          from pending_loop_result [OF l] obtain ds where
            ds: "pending_results L (wl_display st) w4 (Suc (length ds)) = ds @ [dl]"
              "t5 = t4 @ drain_calls (wl_display st) (ds @ [dl])"
              "\<forall>r\<in>set ds. 0 < r" "dl \<le> 0" by blast
          from res ds(2) t1 have
            "res = Continue (pfds1, lib_sd_bus_flush L (bus st) w5,
              t @ Poll ret # dbus_part st pfds1 (ps @ [0]) @
              wayland_part st pfds1 y @ pipewire_part st pfds1 z @
              drain_calls (wl_display st) (ds @ [dl]) @ [Sd_bus_flush (bus st)])"
            by (simp add: sd_bus_flush_def t4_def t3_def t2_def)
          with ret b x y0 z0 ds show thesis
            by (intro continue [of ps y z ds dl w4 "lib_sd_bus_flush L (bus st) w5"]) simp_all
        qed
      qed
    qed
  qed
qed

lemmas kind_defs = is_poll_def is_sd_bus_process_def is_wl_display_dispatch_def
  is_pw_loop_iterate_def is_release_def is_wl_list_init_def

lemma filter_bus_calls [simp]:
  "filter is_sd_bus_process (map (Sd_bus_process b) rs) = map (Sd_bus_process b) rs"
  "filter is_poll (map (Sd_bus_process b) rs) = []"
  "filter is_wl_display_dispatch (map (Sd_bus_process b) rs) = []"
  "filter is_pw_loop_iterate (map (Sd_bus_process b) rs) = []"
  "filter is_release (map (Sd_bus_process b) rs) = []"
  "filter is_wl_list_init (map (Sd_bus_process b) rs) = []"
  by (induction rs) (simp_all add: kind_defs)

lemma filter_drain_calls [simp]:
  "filter is_sd_bus_process (drain_calls d rs) = []"
  "filter is_poll (drain_calls d rs) = []"
  "filter is_wl_display_dispatch (drain_calls d rs) = []"
  "filter is_pw_loop_iterate (drain_calls d rs) = []"
  "filter is_release (drain_calls d rs) = []"
  "filter is_wl_list_init (drain_calls d rs) = []"
  by (induction rs) (simp_all add: kind_defs drain_calls_def)

lemma filter_dbus_part [simp]:
  "filter is_sd_bus_process (dbus_part st pfds rs) =
     (if ready pfds EVENT_LOOP_DBUS then map (Sd_bus_process (bus st)) rs else [])"
  "filter is_poll (dbus_part st pfds rs) = []"
  "filter is_wl_display_dispatch (dbus_part st pfds rs) = []"
  "filter is_pw_loop_iterate (dbus_part st pfds rs) = []"
  "filter is_release (dbus_part st pfds rs) = []"
  "filter is_wl_list_init (dbus_part st pfds rs) = []"
  by (simp_all add: dbus_part_def) (simp_all add: kind_defs)

lemma filter_wayland_part [simp]:
  "filter is_sd_bus_process (wayland_part st pfds r) = []"
  "filter is_poll (wayland_part st pfds r) = []"
  "filter is_wl_display_dispatch (wayland_part st pfds r) =
     (if ready pfds EVENT_LOOP_WAYLAND then [Wl_display_dispatch (wl_display st) r] else [])"
  "filter is_pw_loop_iterate (wayland_part st pfds r) = []"
  "filter is_release (wayland_part st pfds r) = []"
  "filter is_wl_list_init (wayland_part st pfds r) = []"
  by (simp_all add: wayland_part_def kind_defs)

lemma filter_pipewire_part [simp]:
  "filter is_sd_bus_process (pipewire_part st pfds r) = []"
  "filter is_poll (pipewire_part st pfds r) = []"
  "filter is_wl_display_dispatch (pipewire_part st pfds r) = []"
  "filter is_pw_loop_iterate (pipewire_part st pfds r) =
     (if ready pfds EVENT_LOOP_PIPEWIRE then [Pw_loop_iterate (pw_loop st) r] else [])"
  "filter is_release (pipewire_part st pfds r) = []"
  "filter is_wl_list_init (pipewire_part st pfds r) = []"
  by (simp_all add: pipewire_part_def kind_defs)

lemma kind_simps [simp]:
  "\<not> is_sd_bus_process (Logprint lvl fmt args)" "\<not> is_poll (Logprint lvl fmt args)"
  "\<not> is_wl_display_dispatch (Logprint lvl fmt args)" "\<not> is_pw_loop_iterate (Logprint lvl fmt args)"
  "\<not> is_release (Logprint lvl fmt args)" "\<not> is_wl_list_init (Logprint lvl fmt args)"
  "\<not> is_sd_bus_process (Sd_bus_flush b)" "\<not> is_poll (Sd_bus_flush b)"
  "\<not> is_wl_display_dispatch (Sd_bus_flush b)" "\<not> is_pw_loop_iterate (Sd_bus_flush b)"
  "\<not> is_release (Sd_bus_flush b)" "\<not> is_wl_list_init (Sd_bus_flush b)"
  "\<not> is_sd_bus_process (Poll r)" "is_poll (Poll r)"
  "\<not> is_wl_display_dispatch (Poll r)" "\<not> is_pw_loop_iterate (Poll r)"
  "\<not> is_release (Poll r)" "\<not> is_wl_list_init (Poll r)"
  by (simp_all add: kind_defs)

lemma dispatch_parts [simp]:
  "list_all is_dispatch (dbus_part st pfds rs) = (ready pfds EVENT_LOOP_DBUS \<longrightarrow> (\<forall>r\<in>set rs. 0 \<le> r))"
  "list_all is_dispatch (wayland_part st pfds r) = (ready pfds EVENT_LOOP_WAYLAND \<longrightarrow> 0 \<le> r)"
  "list_all is_dispatch (pipewire_part st pfds r) = (ready pfds EVENT_LOOP_PIPEWIRE \<longrightarrow> 0 \<le> r)"
  by (auto simp: dbus_part_def wayland_part_def pipewire_part_def is_dispatch_def list_all_iff)

lemma bus_results_length [simp]: "length (bus_results L b w n) = n"
  by (induction n arbitrary: w) (auto split: prod.splits)



lemma poll_os:
  "lib_poll L pfds w = ((ret, written), w1) \<Longrightarrow>
   poll L pfds (w, t) = ((ret, (\<lambda>i. (pfds i)\<lparr>pollfd_revents := written i\<rparr>)), w1, t @ [Poll ret])"
  by (simp add: poll_def)

lemma ready_written [simp]:
  "ready (\<lambda>i. (pfds i)\<lparr>pollfd_revents := written i\<rparr>) j = (written j AND POLLIN \<noteq> 0)"
  by (simp add: ready_def)

text \<open>What a pass appends holds no release and no construction of the state.\<close>

lemma iteration_trace:
  assumes "iteration L st pfds s = Some res"
  shows "\<exists>u. snd (step_st res) = snd s @ u \<and> filter is_release u = [] \<and>
           filter is_wl_list_init u = []"
proof -
  obtain w t where s: "s = (w, t)" by (cases s)
  obtain ret pfds1 w1 t1 where p: "poll L pfds (w, t) = ((ret, pfds1), w1, t1)"
    by (cases "poll L pfds (w, t)") auto
  from assms [unfolded s] p show ?thesis
    by (cases rule: iteration_cases) (simp_all add: s)
qed

lemma event_loop_continue:
  "iteration L st pfds s = Some (Continue (pfds1, s1)) \<Longrightarrow>
   event_loop L st pfds s = event_loop L st pfds1 s1"
  by (subst event_loop.simps) simp

lemma event_loop_error:
  "iteration L st pfds s = Some (Goto_error (pfds1, s1)) \<Longrightarrow> event_loop L st pfds s = Some s1"
  by (subst event_loop.simps) simp

lemma event_loop_trace:
  assumes "event_loop L st pfds s = Some s'"
  shows "\<exists>u. snd s' = snd s @ u \<and> filter is_release u = [] \<and> filter is_wl_list_init u = []"
proof (rule event_loop.raw_induct [where P = "\<lambda>L st pfds s s'.
    \<exists>u. snd s' = snd s @ u \<and> filter is_release u = [] \<and> filter is_wl_list_init u = []",
    OF _ assms], goal_cases)
  case (1 loop L st pfds s s')
  from 1(2) obtain res where it: "iteration L st pfds s = Some res"
    by (auto split: option.splits)
  from iteration_trace [OF it] obtain u where
    u: "snd (step_st res) = snd s @ u" "filter is_release u = []" "filter is_wl_list_init u = []"
    by blast
  show ?case
  proof (cases res)
    case (Goto_error x)
    obtain pfds1 s1 where x: "x = (pfds1, s1)" by (cases x)
    with 1(2) it Goto_error have "s' = s1" by simp
    with u Goto_error x show ?thesis by simp
  next
    case (Continue x)
    obtain pfds1 s1 where x: "x = (pfds1, s1)" by (cases x)
    with 1(2) it Continue have "loop L st pfds1 s1 = Some s'" by simp
    from 1(1) [OF this] obtain v where
      v: "snd s' = snd s1 @ v" "filter is_release v = []" "filter is_wl_list_init v = []" by blast
    show ?thesis
      by (rule exI [of _ "u @ v"]) (use u v Continue x in simp)
  qed
qed

lemma error_exit_eq:
  "error_exit L b st (w, t) =
     (lib_wl_display_disconnect L (wl_display st)
        (lib_pw_loop_destroy L (pw_loop st)
           (lib_pw_loop_leave L (pw_loop st) (lib_sd_bus_unref L b w))),
      t @ [Sd_bus_unref b, Pw_loop_leave (pw_loop st), Pw_loop_destroy (pw_loop st),
           Wl_display_disconnect (wl_display st)])"
  by (simp add: error_exit_def sd_bus_unref_def pw_loop_leave_def pw_loop_destroy_def
      wl_display_disconnect_def)

subsection \<open>Runs in the simulated desktop\<close>

lemma sim_libs_sel [simp]:
  "lib_init_logger sim_libs lvl w = w"
  "lib_sd_bus_open_user sim_libs w = ((0, 10), w)"
  "lib_wl_display_connect sim_libs w = (Some 20, w)"
  "lib_pw_init sim_libs w = w"
  "lib_pw_loop_new sim_libs w = (Some 30, w)"
  "lib_xdpw_screenshot_init sim_libs state w = w"
  "lib_xdpw_screencast_init sim_libs state output_name w = (0, w)"
  "lib_sd_bus_request_name sim_libs b name w = (1, w)"
  "lib_sd_bus_get_fd sim_libs b w = 4"
  "lib_wl_display_get_fd sim_libs d w = 5"
  "lib_pw_loop_get_fd sim_libs p w = 6"
  "lib_poll sim_libs pollfds w =
     (if wakeups w = 0 then ((- 1, (\<lambda>i. 0)), w)
      else ((1, (\<lambda>i. if i = EVENT_LOOP_DBUS then POLLIN else 0)), w\<lparr>wakeups := wakeups w - 1\<rparr>))"
  "lib_sd_bus_process sim_libs b w =
     (if bus_queue w = 0 then (0, w)
      else (1, w\<lparr>bus_queue := bus_queue w - 1, display_pending := display_pending w + 1\<rparr>))"
  "lib_wl_display_dispatch sim_libs d w = (int (display_pending w), w\<lparr>display_pending := 0\<rparr>)"
  "lib_pw_loop_iterate sim_libs p w = (0, w)"
  "lib_wl_display_dispatch_pending sim_libs d w =
     (int (display_pending w), w\<lparr>display_pending := 0\<rparr>)"
  "lib_wl_display_flush sim_libs d w = w"
  "lib_sd_bus_flush sim_libs b w = w"
  "lib_sd_bus_unref sim_libs b w = w"
  "lib_pw_loop_leave sim_libs p w = w"
  "lib_pw_loop_destroy sim_libs p w = w"
  "lib_wl_display_disconnect sim_libs d w = w"
  by (simp_all add: sim_libs_def)

lemma POLLIN_bits [simp]: "POLLIN \<noteq> 0" "POLLIN AND POLLIN \<noteq> 0"
  unfolding POLLIN_def by simp_all

lemma run_pass:
  "\<exists>pfds1. iteration sim_libs sim_state sim_pollfds (two_requests, []) =
     Some (Continue (pfds1, all_handled,
       [Poll 1, Logprint TRACE ''event-loop: got dbus event'' [],
        Sd_bus_process 10 1, Sd_bus_process 10 1, Sd_bus_process 10 0,
        Wl_display_dispatch_pending 20 2, Wl_display_flush 20,
        Wl_display_dispatch_pending 20 0, Wl_display_flush 20, Sd_bus_flush 10]))"
  by (simp add: iteration_def dispatch_dbus_def dispatch_wayland_def dispatch_pipewire_def
      lib_defs sd_bus_process_loop.simps dispatch_pending_loop.simps ready_def
      sim_state_def two_requests_def all_handled_def Let_def)

lemma run_last_pass:
  "\<exists>pfds1. iteration sim_libs sim_state pfds (all_handled, t) =
     Some (Goto_error (pfds1, all_handled,
       t @ [Poll (- 1), Logprint ERROR ''poll failed: %s'' [Arg_strerror_errno]]))"
  by (simp add: iteration_def lib_defs all_handled_def)

lemma run_multiplex:
  "multiplex sim_libs 10 sim_state sim_pollfds (two_requests, []) =
     Some (EXIT_FAILURE, all_handled,
       [Poll 1, Logprint TRACE ''event-loop: got dbus event'' [],
        Sd_bus_process 10 1, Sd_bus_process 10 1, Sd_bus_process 10 0,
        Wl_display_dispatch_pending 20 2, Wl_display_flush 20,
        Wl_display_dispatch_pending 20 0, Wl_display_flush 20, Sd_bus_flush 10,
        Poll (- 1), Logprint ERROR ''poll failed: %s'' [Arg_strerror_errno],
        Sd_bus_unref 10, Pw_loop_leave 30, Pw_loop_destroy 30, Wl_display_disconnect 20])"
proof -
  from run_pass obtain pfds1 where
    a: "iteration sim_libs sim_state sim_pollfds (two_requests, []) =
     Some (Continue (pfds1, all_handled,
       [Poll 1, Logprint TRACE ''event-loop: got dbus event'' [],
        Sd_bus_process 10 1, Sd_bus_process 10 1, Sd_bus_process 10 0,
        Wl_display_dispatch_pending 20 2, Wl_display_flush 20,
        Wl_display_dispatch_pending 20 0, Wl_display_flush 20, Sd_bus_flush 10]))" by blast
  from run_last_pass [of pfds1] obtain pfds2 where
    b: "iteration sim_libs sim_state pfds1 (all_handled,
       [Poll 1, Logprint TRACE ''event-loop: got dbus event'' [],
        Sd_bus_process 10 1, Sd_bus_process 10 1, Sd_bus_process 10 0,
        Wl_display_dispatch_pending 20 2, Wl_display_flush 20,
        Wl_display_dispatch_pending 20 0, Wl_display_flush 20, Sd_bus_flush 10]) =
     Some (Goto_error (pfds2, all_handled,
       [Poll 1, Logprint TRACE ''event-loop: got dbus event'' [],
        Sd_bus_process 10 1, Sd_bus_process 10 1, Sd_bus_process 10 0,
        Wl_display_dispatch_pending 20 2, Wl_display_flush 20,
        Wl_display_dispatch_pending 20 0, Wl_display_flush 20, Sd_bus_flush 10] @
        [Poll (- 1), Logprint ERROR ''poll failed: %s'' [Arg_strerror_errno]]))" by blast
  show ?thesis
    unfolding multiplex_def event_loop_continue [OF a] event_loop_error [OF b]
    by (simp add: error_exit_eq sim_state_def)
qed

lemma run_bootstrap:
  "\<exists>pfds. bootstrap sim_libs sim_h None (two_requests, []) =
     (Boot_ready 10 sim_state pfds, two_requests,
      [Sd_bus_open_user 0 10, Logprint DEBUG ''dbus: connected'' [],
       Wl_display_connect (Some 20), Logprint DEBUG ''wlroots: wl_display connected'' [],
       Pw_init, Pw_loop_new (Some 30), Logprint DEBUG ''pipewire: pw_loop created'' [],
       Wl_list_init, Xdpw_screenshot_init sim_state, Xdpw_screencast_init sim_state None 0,
       Sd_bus_request_name 10 service_name 1])"
  by (simp add: bootstrap_def state_init_def state_initializer_def lib_defs sim_state_def
      sim_h_def Let_def)

subsection \<open>The start-up\<close>






lemmas sim_lib_variants = sim_libs_bus_error_def sim_libs_all_ready_def
  sim_libs_display_error_def sim_libs_stream_error_def

lemmas pass_eval = iteration_def dispatch_dbus_def dispatch_wayland_def dispatch_pipewire_def
  lib_defs sd_bus_process_loop.simps dispatch_pending_loop.simps ready_def Let_def

lemma sim_variant_sel [simp]:
  "lib_sd_bus_open_user sim_libs_no_display w = ((0, 10), w)"
  "lib_wl_display_connect sim_libs_no_display w = (None, w)"
  "lib_sd_bus_unref sim_libs_no_display b w = w"
  "lib_sd_bus_open_user sim_libs_no_loop w = ((0, 10), w)"
  "lib_wl_display_connect sim_libs_no_loop w = (Some 20, w)"
  "lib_pw_init sim_libs_no_loop w = w"
  "lib_pw_loop_new sim_libs_no_loop w = (None, w)"
  "lib_sd_bus_unref sim_libs_no_loop b w = w"
  "lib_wl_display_disconnect sim_libs_no_loop d w = w"
  by (simp_all add: sim_libs_no_display_def sim_libs_no_loop_def)

section \<open>The claims\<close>

subsection \<open>C1: file errors while taking the lock\<close>

text \<open>
  Claim C1, as amended.  A failure to open the lock file makes \<open>acquire\<close> fail with
  \<open>-1\<close>, and so does a failure of \<open>flock\<close> with an \<open>errno\<close> other than
  \<open>EWOULDBLOCK\<close>.  Once the lock is obtained \<open>acquire\<close> returns \<open>0\<close>, whatever
  \<open>ftruncate\<close>, \<open>write\<close> and \<open>fsync\<close> return: the first of the three that fails
  ends the chain and is logged as an error, and nothing else happens.
\<close>

theorem acquire_io_errors:
  "(open_pidfd S s = Some (Inl e, s1) \<longrightarrow>
      assert_only_one_xdpw_instance S r s =
        Some (- 1, logprint ERROR ''Failed to open pid file: %s\<newline>'' [Arg_strerror e] s1)) \<and>
   (open_pidfd S s = Some (Inr fd, s1) \<and> sys_flock S fd s1 = (Inl e, s2) \<and> e \<noteq> EWOULDBLOCK \<longrightarrow>
      assert_only_one_xdpw_instance S r s =
        Some (- 1, logprint ERROR ''Failed to lock pid file: %s\<newline>'' [Arg_strerror e] s2)) \<and>
   (open_pidfd S s = Some (Inr fd, s1) \<and> sys_flock S fd s1 = (Inr u, s2) \<longrightarrow>
      assert_only_one_xdpw_instance S r s = Some (0, write_pid S fd s2) \<and>
      (sys_ftruncate S fd 0 s2 = (Inl e, s3) \<longrightarrow>
         write_pid S fd s2 =
           logprint ERROR ''Failed to write to pid file: %s\<newline>'' [Arg_strerror e] s3) \<and>
      (sys_ftruncate S fd 0 s2 = (Inr u', s3) \<and>
       sys_write S fd (sprintf_d (os_getpid S (fst s2))) s3 = (Inl e, s4) \<longrightarrow>
         write_pid S fd s2 =
           logprint ERROR ''Failed to write to pid file: %s\<newline>'' [Arg_strerror e] s4) \<and>
      (sys_ftruncate S fd 0 s2 = (Inr u', s3) \<and>
       sys_write S fd (sprintf_d (os_getpid S (fst s2))) s3 = (Inr n, s4) \<and>
       sys_fsync S fd s4 = (Inl e, s5) \<longrightarrow>
         write_pid S fd s2 =
           logprint ERROR ''Failed to write to pid file: %s\<newline>'' [Arg_strerror e] s5))"
  by (auto simp: acquire_open_failed acquire_lock_failed acquire_locked write_pid_def Let_def)

text \<open>
  The three cases in the simulated system: the directory is not writable, no lock is
  left, the disk is full.
\<close>

theorem acquire_io_errors_witness:
  "assert_only_one_xdpw_instance (sim_libc_no_access 4711) False (stale_1234, []) =
     Some (- 1, stale_1234,
       [Open ''/run/user/1000/xdpw.pid'' (Inl 13),
        Logprint ERROR ''Failed to open pid file: %s\<newline>'' [Arg_strerror 13]]) \<and>
   assert_only_one_xdpw_instance (sim_libc_no_locks 4711) False (stale_1234, []) =
     Some (- 1, stale_1234,
       [Open ''/run/user/1000/xdpw.pid'' (Inr 3), Flock 3 (Inl 37),
        Logprint ERROR ''Failed to lock pid file: %s\<newline>'' [Arg_strerror 37]]) \<and>
   assert_only_one_xdpw_instance (sim_libc_disk_full 4711) False (stale_1234, []) =
     Some (0, write_pid (sim_libc_disk_full 4711) 3
       (\<lparr>lock_holder = Some 4711, file_content = ''1234''\<rparr>,
        [Open ''/run/user/1000/xdpw.pid'' (Inr 3), Flock 3 (Inr ())])) \<and>
   write_pid (sim_libc_disk_full 4711) 3
       (\<lparr>lock_holder = Some 4711, file_content = ''1234''\<rparr>,
        [Open ''/run/user/1000/xdpw.pid'' (Inr 3), Flock 3 (Inr ())]) =
     (\<lparr>lock_holder = Some 4711, file_content = []\<rparr>,
      [Open ''/run/user/1000/xdpw.pid'' (Inr 3), Flock 3 (Inr ()),
       Ftruncate 3 0 (Inr ()), Write 3 ''4711'' (Inl 28),
       Logprint ERROR ''Failed to write to pid file: %s\<newline>'' [Arg_strerror 28]])"
  using
    acquire_io_errors [of "sim_libc_no_access 4711" "(stale_1234, [])" 13
      "(stale_1234, [Open ''/run/user/1000/xdpw.pid'' (Inl 13)])" False]
    acquire_io_errors [of "sim_libc_no_locks 4711" "(stale_1234, [])" 37
      "(stale_1234, [Open ''/run/user/1000/xdpw.pid'' (Inr 3)])" False 3
      "(stale_1234, [Open ''/run/user/1000/xdpw.pid'' (Inr 3), Flock 3 (Inl 37)])"]
    acquire_io_errors [of "sim_libc_disk_full 4711" "(stale_1234, [])" 28
      "(stale_1234, [Open ''/run/user/1000/xdpw.pid'' (Inr 3)])" False 3
      "(\<lparr>lock_holder = Some 4711, file_content = ''1234''\<rparr>,
        [Open ''/run/user/1000/xdpw.pid'' (Inr 3), Flock 3 (Inr ())])" "()"
      "(\<lparr>lock_holder = Some 4711, file_content = []\<rparr>,
        [Open ''/run/user/1000/xdpw.pid'' (Inr 3), Flock 3 (Inr ()), Ftruncate 3 0 (Inr ())])"
      "()"
      "(\<lparr>lock_holder = Some 4711, file_content = []\<rparr>,
        [Open ''/run/user/1000/xdpw.pid'' (Inr 3), Flock 3 (Inr ()), Ftruncate 3 0 (Inr ()),
         Write 3 ''4711'' (Inl 28)])"]
  by (simp add: sim_eval sim_variants)

text \<open>
  Claim C1 as it was stated fails: the disk is full, \<open>write\<close> returns \<open>-1\<close> after
  the lock was obtained and the file was truncated, and \<open>acquire\<close> returns \<open>0\<close>.
\<close>

theorem lock_write_failure_is_success_counterexample:
  "assert_only_one_xdpw_instance (sim_libc_disk_full 4711) False (stale_1234, []) =
     Some (0, \<lparr>lock_holder = Some 4711, file_content = []\<rparr>,
       [Open ''/run/user/1000/xdpw.pid'' (Inr 3), Flock 3 (Inr ()),
        Ftruncate 3 0 (Inr ()), Write 3 ''4711'' (Inl 28),
        Logprint ERROR ''Failed to write to pid file: %s\<newline>'' [Arg_strerror 28]])"
  by (subst assert_only_one_xdpw_instance.simps) (simp add: sim_eval sim_variants)

subsection \<open>C2: the bus is drained when, and only when, it is ready\<close>



subsection \<open>C3: the queued display events are drained in every pass\<close>

text \<open>
  Claim C3.  Take a pass of the loop whose \<open>poll\<close> succeeded, whatever it
  reported ready, and whose dispatch phase did not jump to \<open>error\<close>.  When
  \<open>wl_display_dispatch_pending\<close>, called again and again with a
  \<open>wl_display_flush\<close> after each call, returns positive numbers and then a number
  that is not positive, the loop of lines 249 to 252 ends with that call, and the pass
  returns: it has appended exactly these calls and then \<open>sd_bus_flush\<close> to the log
  of the dispatch phase, and the loop goes on with the next \<open>poll\<close>.  And every
  pass that does not jump to \<open>error\<close> has appended to the log: the \<open>poll\<close>,
  then calls of the dispatch phase only, then \<open>wl_display_dispatch_pending\<close> each
  followed by \<open>wl_display_flush\<close>, as long as the former returned a positive
  number and once more when it did not, then \<open>sd_bus_flush\<close>, and nothing after
  it.
\<close>

theorem pending_drained_every_pass:
  "(\<forall>ret written w1 s2 s3 w4 t4 ds dl.
      (let pfds1 = (\<lambda>i. (pfds i)\<lparr>pollfd_revents := written i\<rparr>) in
       lib_poll L pfds w = ((ret, written), w1) \<and> 0 \<le> ret \<and>
       dispatch_dbus L st pfds1 (w1, t @ [Poll ret]) = Some (Continue s2) \<and>
       dispatch_wayland L st pfds1 s2 = Continue s3 \<and>
       dispatch_pipewire L st pfds1 s3 = Continue (w4, t4) \<and>
       pending_results L (wl_display st) w4 (Suc (length ds)) = ds @ [dl] \<and>
       (\<forall>r\<in>set ds. 0 < r) \<and> dl \<le> 0 \<longrightarrow>
       dispatch_pending_loop L (wl_display st) (w4, t4) =
         Some (dl, pending_world L (wl_display st) w4 (Suc (length ds)),
               t4 @ drain_calls (wl_display st) (ds @ [dl])) \<and>
       iteration L st pfds (w, t) =
         Some (Continue (pfds1,
           lib_sd_bus_flush L (bus st) (pending_world L (wl_display st) w4 (Suc (length ds))),
           t4 @ drain_calls (wl_display st) (ds @ [dl]) @ [Sd_bus_flush (bus st)])) \<and>
       event_loop L st pfds (w, t) =
         event_loop L st pfds1
           (lib_sd_bus_flush L (bus st) (pending_world L (wl_display st) w4 (Suc (length ds))),
            t4 @ drain_calls (wl_display st) (ds @ [dl]) @ [Sd_bus_flush (bus st)]))) \<and>
   (\<forall>pfds1 w' t'. iteration L st pfds (w, t) = Some (Continue (pfds1, w', t')) \<longrightarrow>
      (\<exists>ret u ds dl w4.
         t' = t @ Poll ret # u @ drain_calls (wl_display st) (ds @ [dl]) @
                [Sd_bus_flush (bus st)] \<and>
         0 \<le> ret \<and> list_all is_dispatch u \<and>
         pending_results L (wl_display st) w4 (Suc (length ds)) = ds @ [dl] \<and>
         (\<forall>r\<in>set ds. 0 < r) \<and> dl \<le> 0))"
proof (intro conjI allI impI)
  fix ret written w1 s2 s3 w4 t4 ds dl
  define pfds1 where "pfds1 = (\<lambda>i. (pfds i)\<lparr>pollfd_revents := written i\<rparr>)"
  have "dispatch_pending_loop L (wl_display st) (w4, t4) =
         Some (dl, pending_world L (wl_display st) w4 (Suc (length ds)),
               t4 @ drain_calls (wl_display st) (ds @ [dl])) \<and>
       iteration L st pfds (w, t) =
         Some (Continue (pfds1,
           lib_sd_bus_flush L (bus st) (pending_world L (wl_display st) w4 (Suc (length ds))),
           t4 @ drain_calls (wl_display st) (ds @ [dl]) @ [Sd_bus_flush (bus st)])) \<and>
       event_loop L st pfds (w, t) =
         event_loop L st pfds1
           (lib_sd_bus_flush L (bus st) (pending_world L (wl_display st) w4 (Suc (length ds))),
            t4 @ drain_calls (wl_display st) (ds @ [dl]) @ [Sd_bus_flush (bus st)])"
    if h: "lib_poll L pfds w = ((ret, written), w1)" "0 \<le> ret"
      "dispatch_dbus L st pfds1 (w1, t @ [Poll ret]) = Some (Continue s2)"
      "dispatch_wayland L st pfds1 s2 = Continue s3"
      "dispatch_pipewire L st pfds1 s3 = Continue (w4, t4)"
      "pending_results L (wl_display st) w4 (Suc (length ds)) = ds @ [dl]"
      "\<forall>r\<in>set ds. 0 < r" "dl \<le> 0"
  proof -
    note l = pending_loop_returns [OF h(6,7,8), of t4]
    note p = poll_os [OF h(1), of t, folded pfds1_def]
    from h(2,3,4,5) have i: "iteration L st pfds (w, t) =
         Some (Continue (pfds1,
           lib_sd_bus_flush L (bus st) (pending_world L (wl_display st) w4 (Suc (length ds))),
           t4 @ drain_calls (wl_display st) (ds @ [dl]) @ [Sd_bus_flush (bus st)]))"
      by (simp add: l iteration_def p sd_bus_flush_def)
    from l i event_loop_continue [OF i] show ?thesis
      by (intro conjI)
  qed
  then show "let pfds1 = (\<lambda>i. (pfds i)\<lparr>pollfd_revents := written i\<rparr>) in
       lib_poll L pfds w = ((ret, written), w1) \<and> 0 \<le> ret \<and>
       dispatch_dbus L st pfds1 (w1, t @ [Poll ret]) = Some (Continue s2) \<and>
       dispatch_wayland L st pfds1 s2 = Continue s3 \<and>
       dispatch_pipewire L st pfds1 s3 = Continue (w4, t4) \<and>
       pending_results L (wl_display st) w4 (Suc (length ds)) = ds @ [dl] \<and>
       (\<forall>r\<in>set ds. 0 < r) \<and> dl \<le> 0 \<longrightarrow>
       dispatch_pending_loop L (wl_display st) (w4, t4) =
         Some (dl, pending_world L (wl_display st) w4 (Suc (length ds)),
               t4 @ drain_calls (wl_display st) (ds @ [dl])) \<and>
       iteration L st pfds (w, t) =
         Some (Continue (pfds1,
           lib_sd_bus_flush L (bus st) (pending_world L (wl_display st) w4 (Suc (length ds))),
           t4 @ drain_calls (wl_display st) (ds @ [dl]) @ [Sd_bus_flush (bus st)])) \<and>
       event_loop L st pfds (w, t) =
         event_loop L st pfds1
           (lib_sd_bus_flush L (bus st) (pending_world L (wl_display st) w4 (Suc (length ds))),
            t4 @ drain_calls (wl_display st) (ds @ [dl]) @ [Sd_bus_flush (bus st)])"
    unfolding Let_def pfds1_def by blast
next
  fix pfds1 w' t'
  assume a: "iteration L st pfds (w, t) = Some (Continue (pfds1, w', t'))"
  obtain ret pfds2 w1 t1 where p: "poll L pfds (w, t) = ((ret, pfds2), w1, t1)"
    by (cases "poll L pfds (w, t)") auto
  from a p show "\<exists>ret u ds dl w4.
         t' = t @ Poll ret # u @ drain_calls (wl_display st) (ds @ [dl]) @
                [Sd_bus_flush (bus st)] \<and>
         0 \<le> ret \<and> list_all is_dispatch u \<and>
         pending_results L (wl_display st) w4 (Suc (length ds)) = ds @ [dl] \<and>
         (\<forall>r\<in>set ds. 0 < r) \<and> dl \<le> 0"
  proof (cases rule: iteration_cases)
    case (continue ps y z ds dl w4 w'')
    let ?u = "dbus_part st pfds2 (ps @ [0]) @ wayland_part st pfds2 y @ pipewire_part st pfds2 z"
    from continue show ?thesis
      by (intro exI [of _ ret] exI [of _ ?u] exI [of _ ds] exI [of _ dl] exI [of _ w4])
        (auto simp: less_imp_le)
  qed simp_all
qed

text \<open>
  In the simulated desktop only the bus is ready; the two display events its
  requests queue are dispatched and flushed in the same pass, although the display
  was not reported ready.  When \<open>poll\<close> returns with no source ready, the pass
  still calls \<open>wl_display_dispatch_pending\<close>, \<open>wl_display_flush\<close> and
  \<open>sd_bus_flush\<close>.
\<close>

theorem pending_drained_every_pass_witness:
  "(\<exists>pfds1. iteration sim_libs sim_state sim_pollfds (two_requests, []) =
      Some (Continue (pfds1, all_handled,
        [Poll 1, Logprint TRACE ''event-loop: got dbus event'' [],
         Sd_bus_process 10 1, Sd_bus_process 10 1, Sd_bus_process 10 0,
         Wl_display_dispatch_pending 20 2, Wl_display_flush 20,
         Wl_display_dispatch_pending 20 0, Wl_display_flush 20, Sd_bus_flush 10]))) \<and>
   (\<exists>pfds1. iteration sim_libs_idle sim_state sim_pollfds (all_handled, []) =
      Some (Continue (pfds1, all_handled,
        [Poll 0, Wl_display_dispatch_pending 20 0, Wl_display_flush 20, Sd_bus_flush 10])))"
proof -
  note a = pending_drained_every_pass [where L = sim_libs and pfds = sim_pollfds
      and w = two_requests and st = sim_state and t = "[]", THEN conjunct1, rule_format,
      where ret = 1 and written = "\<lambda>i. if i = EVENT_LOOP_DBUS then POLLIN else 0"
        and ?w1.0 = "\<lparr>bus_queue = 2, display_pending = 0, wakeups = 0\<rparr>"
        and ?s2.0 = "(\<lparr>bus_queue = 0, display_pending = 2, wakeups = 0\<rparr>,
          [Poll 1, Logprint TRACE ''event-loop: got dbus event'' [],
           Sd_bus_process 10 1, Sd_bus_process 10 1, Sd_bus_process 10 0])"
        and ?s3.0 = "(\<lparr>bus_queue = 0, display_pending = 2, wakeups = 0\<rparr>,
          [Poll 1, Logprint TRACE ''event-loop: got dbus event'' [],
           Sd_bus_process 10 1, Sd_bus_process 10 1, Sd_bus_process 10 0])"
        and ?w4.0 = "\<lparr>bus_queue = 0, display_pending = 2, wakeups = 0\<rparr>"
        and ?t4.0 = "[Poll 1, Logprint TRACE ''event-loop: got dbus event'' [],
          Sd_bus_process 10 1, Sd_bus_process 10 1, Sd_bus_process 10 0]"
        and ds = "[2]" and dl = 0, unfolded Let_def]
  have "\<exists>pfds1. iteration sim_libs sim_state sim_pollfds (two_requests, []) =
      Some (Continue (pfds1, all_handled,
        [Poll 1, Logprint TRACE ''event-loop: got dbus event'' [],
         Sd_bus_process 10 1, Sd_bus_process 10 1, Sd_bus_process 10 0,
         Wl_display_dispatch_pending 20 2, Wl_display_flush 20,
         Wl_display_dispatch_pending 20 0, Wl_display_flush 20, Sd_bus_flush 10]))"
    using a
    by (simp add: dispatch_dbus_def dispatch_wayland_def dispatch_pipewire_def
        sd_bus_process_loop.simps sd_bus_process_def logprint_def ready_def
        sim_state_def two_requests_def all_handled_def drain_calls_def)
  moreover
  note b = pending_drained_every_pass [where L = sim_libs_idle and pfds = sim_pollfds
      and w = all_handled and st = sim_state and t = "[]", THEN conjunct1, rule_format,
      where ret = 0 and written = "\<lambda>i. 0" and ?w1.0 = all_handled
        and ?s2.0 = "(all_handled, [Poll 0])" and ?s3.0 = "(all_handled, [Poll 0])"
        and ?w4.0 = all_handled and ?t4.0 = "[Poll 0]" and ds = "[]" and dl = 0,
      unfolded Let_def]
  have "\<exists>pfds1. iteration sim_libs_idle sim_state sim_pollfds (all_handled, []) =
      Some (Continue (pfds1, all_handled,
        [Poll 0, Wl_display_dispatch_pending 20 0, Wl_display_flush 20, Sd_bus_flush 10]))"
    using b
    by (simp add: dispatch_dbus_def dispatch_wayland_def dispatch_pipewire_def
        ready_def sim_libs_idle_def sim_state_def all_handled_def drain_calls_def)
  ultimately show ?thesis
    by blast
qed

subsection \<open>C4: every fatal condition of the loop ends in the one shutdown path\<close>

text \<open>
  Claim C4.  A pass jumps to \<open>error\<close> when \<open>poll\<close> fails, when the last
  \<open>sd_bus_process\<close> of a ready bus returns a negative number, and when
  \<open>wl_display_dispatch\<close> or \<open>pw_loop_iterate\<close> of a ready source does.  From a pass
  that jumps to \<open>error\<close> the program calls \<open>sd_bus_unref\<close>, \<open>pw_loop_leave\<close>,
  \<open>pw_loop_destroy\<close> and \<open>wl_display_disconnect\<close>, in this order, and returns
  \<open>EXIT_FAILURE\<close>; a pass that does not jump goes on with the next pass.  Whenever
  the loop is left, the log ends with these four calls, none of them occurs before,
  and the exit status is \<open>EXIT_FAILURE\<close>, which is not \<open>EXIT_SUCCESS\<close>.
\<close>

theorem fatal_shutdown:
  "(poll L pfds s = ((ret, pfds1), s1) \<and> ret < 0 \<longrightarrow>
      iteration L st pfds s =
        Some (Goto_error (pfds1, logprint ERROR ''poll failed: %s'' [Arg_strerror_errno] s1))) \<and>
   (poll L pfds s = ((ret, pfds1), s1) \<and> 0 \<le> ret \<and> ready pfds1 EVENT_LOOP_DBUS \<and>
    sd_bus_process_loop L (bus st) (logprint TRACE ''event-loop: got dbus event'' [] s1) =
      Some (x, s2) \<and> x < 0 \<longrightarrow>
      iteration L st pfds s =
        Some (Goto_error (pfds1,
          logprint ERROR ''sd_bus_process failed: %s'' [Arg_strerror (- x)] s2))) \<and>
   (poll L pfds s = ((ret, pfds1), s1) \<and> 0 \<le> ret \<and>
    dispatch_dbus L st pfds1 s1 = Some (Continue s2) \<and> ready pfds1 EVENT_LOOP_WAYLAND \<and>
    wl_display_dispatch L (wl_display st)
      (logprint TRACE ''event-loop: got wayland event'' [] s2) = (x, s3) \<and> x < 0 \<longrightarrow>
      iteration L st pfds s =
        Some (Goto_error (pfds1,
          logprint ERROR ''wl_display_dispatch failed: %s'' [Arg_strerror_errno] s3))) \<and>
   (poll L pfds s = ((ret, pfds1), s1) \<and> 0 \<le> ret \<and>
    dispatch_dbus L st pfds1 s1 = Some (Continue s2) \<and>
    dispatch_wayland L st pfds1 s2 = Continue s3 \<and> ready pfds1 EVENT_LOOP_PIPEWIRE \<and>
    pw_loop_iterate L (pw_loop st)
      (logprint TRACE ''event-loop: got pipewire event'' [] s3) = (x, s4) \<and> x < 0 \<longrightarrow>
      iteration L st pfds s =
        Some (Goto_error (pfds1,
          logprint ERROR ''pw_loop_iterate failed: %s'' [Arg_spa_strerror x] s4))) \<and>
   (iteration L st pfds s = Some (Goto_error (pfds1, w1, t1)) \<longrightarrow>
      multiplex L b st pfds s =
        Some (EXIT_FAILURE,
          lib_wl_display_disconnect L (wl_display st)
            (lib_pw_loop_destroy L (pw_loop st)
               (lib_pw_loop_leave L (pw_loop st) (lib_sd_bus_unref L b w1))),
          t1 @ [Sd_bus_unref b, Pw_loop_leave (pw_loop st), Pw_loop_destroy (pw_loop st),
                Wl_display_disconnect (wl_display st)])) \<and>
   (iteration L st pfds s = Some (Continue (pfds1, s1)) \<longrightarrow>
      multiplex L b st pfds s = multiplex L b st pfds1 s1) \<and>
   (\<forall>rc w' t'. multiplex L b st pfds s = Some (rc, w', t') \<longrightarrow>
      rc = EXIT_FAILURE \<and>
      (\<exists>u. t' = snd s @ u @ [Sd_bus_unref b, Pw_loop_leave (pw_loop st),
                              Pw_loop_destroy (pw_loop st),
                              Wl_display_disconnect (wl_display st)] \<and>
           filter is_release u = [])) \<and>
   (\<forall>S H lvl out r s0 s'.
      assert_only_one_xdpw_instance S r (init_logger L lvl s0) = Some (0, s') \<and>
      bootstrap L H out s' = (Boot_ready b st pfds, s) \<longrightarrow>
      main S L H lvl out r s0 = multiplex L b st pfds s) \<and>
   EXIT_FAILURE \<noteq> EXIT_SUCCESS"
proof (intro conjI impI allI)
  fix rc w' t'
  assume m: "multiplex L b st pfds s = Some (rc, w', t')"
  then obtain w2 t2 where e: "event_loop L st pfds s = Some (w2, t2)"
    and r: "(rc, w', t') = (EXIT_FAILURE, error_exit L b st (w2, t2))"
    by (auto simp: multiplex_def split: option.splits)
  from r show "rc = EXIT_FAILURE" by simp
  from event_loop_trace [OF e] obtain u where
    u: "t2 = snd s @ u" "filter is_release u = []" by auto
  with r show "\<exists>u. t' = snd s @ u @ [Sd_bus_unref b, Pw_loop_leave (pw_loop st),
                              Pw_loop_destroy (pw_loop st),
                              Wl_display_disconnect (wl_display st)] \<and>
           filter is_release u = []"
    by (intro exI [of _ u]) (simp add: error_exit_eq)
qed (auto simp: iteration_def dispatch_dbus_def dispatch_wayland_def dispatch_pipewire_def
    multiplex_def event_loop_continue event_loop_error error_exit_eq main_def
    EXIT_FAILURE_def EXIT_SUCCESS_def)

text \<open>
  In the simulated desktop the first pass goes on and the second, whose \<open>poll\<close>
  fails, releases the three resources; so do a pass whose bus connection is reset, one
  whose display dispatch fails and one whose streaming loop fails.
\<close>

theorem fatal_shutdown_witness:
  "multiplex sim_libs 10 sim_state sim_pollfds (two_requests, []) =
     multiplex sim_libs 10 sim_state
       (\<lambda>i. (sim_pollfds i)\<lparr>pollfd_revents := if i = EVENT_LOOP_DBUS then POLLIN else 0\<rparr>)
       (all_handled,
        [Poll 1, Logprint TRACE ''event-loop: got dbus event'' [],
         Sd_bus_process 10 1, Sd_bus_process 10 1, Sd_bus_process 10 0,
         Wl_display_dispatch_pending 20 2, Wl_display_flush 20,
         Wl_display_dispatch_pending 20 0, Wl_display_flush 20, Sd_bus_flush 10]) \<and>
   multiplex sim_libs 10 sim_state sim_pollfds (all_handled, []) =
     Some (EXIT_FAILURE, all_handled,
       [Poll (- 1), Logprint ERROR ''poll failed: %s'' [Arg_strerror_errno],
        Sd_bus_unref 10, Pw_loop_leave 30, Pw_loop_destroy 30, Wl_display_disconnect 20]) \<and>
   multiplex sim_libs_bus_error 10 sim_state sim_pollfds (two_requests, []) =
     Some (EXIT_FAILURE, all_handled\<lparr>bus_queue := 2\<rparr>,
       [Poll 1, Logprint TRACE ''event-loop: got dbus event'' [], Sd_bus_process 10 (- 104),
        Logprint ERROR ''sd_bus_process failed: %s'' [Arg_strerror 104],
        Sd_bus_unref 10, Pw_loop_leave 30, Pw_loop_destroy 30, Wl_display_disconnect 20]) \<and>
   multiplex sim_libs_display_error 10 sim_state sim_pollfds (all_handled, []) =
     Some (EXIT_FAILURE, all_handled,
       [Poll 3, Logprint TRACE ''event-loop: got dbus event'' [], Sd_bus_process 10 0,
        Logprint TRACE ''event-loop: got wayland event'' [], Wl_display_dispatch 20 (- 1),
        Logprint ERROR ''wl_display_dispatch failed: %s'' [Arg_strerror_errno],
        Sd_bus_unref 10, Pw_loop_leave 30, Pw_loop_destroy 30, Wl_display_disconnect 20]) \<and>
   multiplex sim_libs_stream_error 10 sim_state sim_pollfds (all_handled, []) =
     Some (EXIT_FAILURE, all_handled,
       [Poll 3, Logprint TRACE ''event-loop: got dbus event'' [], Sd_bus_process 10 0,
        Logprint TRACE ''event-loop: got wayland event'' [], Wl_display_dispatch 20 0,
        Logprint TRACE ''event-loop: got pipewire event'' [], Pw_loop_iterate 30 (- 32),
        Logprint ERROR ''pw_loop_iterate failed: %s'' [Arg_spa_strerror (- 32)],
        Sd_bus_unref 10, Pw_loop_leave 30, Pw_loop_destroy 30, Wl_display_disconnect 20])"
proof -
  let ?pfds1 = "\<lambda>i. (sim_pollfds i)\<lparr>pollfd_revents := if i = EVENT_LOOP_DBUS then POLLIN else 0\<rparr>"
  let ?t1 = "[Poll 1, Logprint TRACE ''event-loop: got dbus event'' [],
         Sd_bus_process 10 1, Sd_bus_process 10 1, Sd_bus_process 10 0,
         Wl_display_dispatch_pending 20 2, Wl_display_flush 20,
         Wl_display_dispatch_pending 20 0, Wl_display_flush 20, Sd_bus_flush 10]"
  have a: "iteration sim_libs sim_state sim_pollfds (two_requests, []) =
      Some (Continue (?pfds1, all_handled, ?t1))"
    by (simp add: pass_eval sim_state_def two_requests_def all_handled_def)
  let ?pfds2 = "\<lambda>i. (sim_pollfds i)\<lparr>pollfd_revents := 0\<rparr>"
  note f = fatal_shutdown [where L = sim_libs and pfds = sim_pollfds and s = "(all_handled, [])"
      and ret = "- 1" and ?pfds1.0 = ?pfds2 and ?s1.0 = "(all_handled, [Poll (- 1)])"
      and st = sim_state and ?w1.0 = all_handled
      and ?t1.0 = "[Poll (- 1), Logprint ERROR ''poll failed: %s'' [Arg_strerror_errno]]"
      and b = 10]
  from f [THEN conjunct1]
  have b: "iteration sim_libs sim_state sim_pollfds (all_handled, []) =
      Some (Goto_error (?pfds2, all_handled,
        [Poll (- 1), Logprint ERROR ''poll failed: %s'' [Arg_strerror_errno]]))"
    by (simp add: poll_def logprint_def all_handled_def)
  from f [THEN conjunct2, THEN conjunct2, THEN conjunct2, THEN conjunct2, THEN conjunct1] b
  have c: "multiplex sim_libs 10 sim_state sim_pollfds (all_handled, []) =
     Some (EXIT_FAILURE, all_handled,
       [Poll (- 1), Logprint ERROR ''poll failed: %s'' [Arg_strerror_errno],
        Sd_bus_unref 10, Pw_loop_leave 30, Pw_loop_destroy 30, Wl_display_disconnect 20])"
    by (simp add: sim_state_def)
  from fatal_shutdown [where L = sim_libs and pfds = sim_pollfds and s = "(two_requests, [])"
      and ?pfds1.0 = ?pfds1 and ?s1.0 = "(all_handled, ?t1)" and st = sim_state and b = 10,
      THEN conjunct2, THEN conjunct2, THEN conjunct2, THEN conjunct2, THEN conjunct2,
      THEN conjunct1] a
  have d: "multiplex sim_libs 10 sim_state sim_pollfds (two_requests, []) =
     multiplex sim_libs 10 sim_state ?pfds1 (all_handled, ?t1)" by simp
  let ?w = "all_handled\<lparr>bus_queue := 2\<rparr>"
  let ?tb = "[Poll 1, Logprint TRACE ''event-loop: got dbus event'' [], Sd_bus_process 10 (- 104)]"
  note g = fatal_shutdown [where L = sim_libs_bus_error and pfds = sim_pollfds
      and s = "(two_requests, [])" and ret = 1 and ?pfds1.0 = ?pfds1 and ?s1.0 = "(?w, [Poll 1])"
      and st = sim_state and x = "- 104" and ?s2.0 = "(?w, ?tb)" and ?w1.0 = ?w
      and ?t1.0 = "?tb @ [Logprint ERROR ''sd_bus_process failed: %s'' [Arg_strerror 104]]"
      and b = 10]
  from g [THEN conjunct2, THEN conjunct1]
  have gb: "iteration sim_libs_bus_error sim_state sim_pollfds (two_requests, []) =
      Some (Goto_error (?pfds1, ?w,
        ?tb @ [Logprint ERROR ''sd_bus_process failed: %s'' [Arg_strerror 104]]))"
    by (simp add: lib_defs sd_bus_process_loop.simps ready_def sim_lib_variants sim_state_def
        two_requests_def all_handled_def)
  from g [THEN conjunct2, THEN conjunct2, THEN conjunct2, THEN conjunct2, THEN conjunct1] gb
  have e: "multiplex sim_libs_bus_error 10 sim_state sim_pollfds (two_requests, []) =
     Some (EXIT_FAILURE, ?w,
       [Poll 1, Logprint TRACE ''event-loop: got dbus event'' [], Sd_bus_process 10 (- 104),
        Logprint ERROR ''sd_bus_process failed: %s'' [Arg_strerror 104],
        Sd_bus_unref 10, Pw_loop_leave 30, Pw_loop_destroy 30, Wl_display_disconnect 20])"
    by (simp add: sim_state_def sim_lib_variants)
  let ?pfds3 = "\<lambda>i. (sim_pollfds i)\<lparr>pollfd_revents := POLLIN\<rparr>"
  let ?td1 = "[Poll 3, Logprint TRACE ''event-loop: got dbus event'' [], Sd_bus_process 10 0]"
  let ?td = "?td1 @ [Logprint TRACE ''event-loop: got wayland event'' [],
      Wl_display_dispatch 20 (- 1)]"
  note h = fatal_shutdown [where L = sim_libs_display_error and pfds = sim_pollfds
      and s = "(all_handled, [])" and ret = 3 and ?pfds1.0 = ?pfds3
      and ?s1.0 = "(all_handled, [Poll 3])" and st = sim_state and x = "- 1"
      and ?s2.0 = "(all_handled, ?td1)" and ?s3.0 = "(all_handled, ?td)" and ?w1.0 = all_handled
      and ?t1.0 = "?td @ [Logprint ERROR ''wl_display_dispatch failed: %s'' [Arg_strerror_errno]]"
      and b = 10]
  from h [THEN conjunct2, THEN conjunct2, THEN conjunct1]
  have hb: "iteration sim_libs_display_error sim_state sim_pollfds (all_handled, []) =
      Some (Goto_error (?pfds3, all_handled,
        ?td @ [Logprint ERROR ''wl_display_dispatch failed: %s'' [Arg_strerror_errno]]))"
    by (simp add: lib_defs dispatch_dbus_def sd_bus_process_loop.simps ready_def sim_lib_variants
        sim_state_def all_handled_def)
  from h [THEN conjunct2, THEN conjunct2, THEN conjunct2, THEN conjunct2, THEN conjunct1] hb
  have e2: "multiplex sim_libs_display_error 10 sim_state sim_pollfds (all_handled, []) =
     Some (EXIT_FAILURE, all_handled,
       [Poll 3, Logprint TRACE ''event-loop: got dbus event'' [], Sd_bus_process 10 0,
        Logprint TRACE ''event-loop: got wayland event'' [], Wl_display_dispatch 20 (- 1),
        Logprint ERROR ''wl_display_dispatch failed: %s'' [Arg_strerror_errno],
        Sd_bus_unref 10, Pw_loop_leave 30, Pw_loop_destroy 30, Wl_display_disconnect 20])"
    by (simp add: sim_state_def sim_lib_variants)
  let ?ts2 = "?td1 @ [Logprint TRACE ''event-loop: got wayland event'' [],
      Wl_display_dispatch 20 0]"
  let ?ts = "?ts2 @ [Logprint TRACE ''event-loop: got pipewire event'' [],
      Pw_loop_iterate 30 (- 32)]"
  note k = fatal_shutdown [where L = sim_libs_stream_error and pfds = sim_pollfds
      and s = "(all_handled, [])" and ret = 3 and ?pfds1.0 = ?pfds3
      and ?s1.0 = "(all_handled, [Poll 3])" and st = sim_state and x = "- 32"
      and ?s2.0 = "(all_handled, ?td1)" and ?s3.0 = "(all_handled, ?ts2)"
      and ?s4.0 = "(all_handled, ?ts)" and ?w1.0 = all_handled
      and ?t1.0 = "?ts @ [Logprint ERROR ''pw_loop_iterate failed: %s'' [Arg_spa_strerror (- 32)]]"
      and b = 10]
  from k [THEN conjunct2, THEN conjunct2, THEN conjunct2, THEN conjunct1]
  have kb: "iteration sim_libs_stream_error sim_state sim_pollfds (all_handled, []) =
      Some (Goto_error (?pfds3, all_handled,
        ?ts @ [Logprint ERROR ''pw_loop_iterate failed: %s'' [Arg_spa_strerror (- 32)]]))"
    by (simp add: lib_defs dispatch_dbus_def dispatch_wayland_def sd_bus_process_loop.simps
        ready_def sim_lib_variants sim_state_def all_handled_def)
  from k [THEN conjunct2, THEN conjunct2, THEN conjunct2, THEN conjunct2, THEN conjunct1] kb
  have e3: "multiplex sim_libs_stream_error 10 sim_state sim_pollfds (all_handled, []) =
     Some (EXIT_FAILURE, all_handled,
       [Poll 3, Logprint TRACE ''event-loop: got dbus event'' [], Sd_bus_process 10 0,
        Logprint TRACE ''event-loop: got wayland event'' [], Wl_display_dispatch 20 0,
        Logprint TRACE ''event-loop: got pipewire event'' [], Pw_loop_iterate 30 (- 32),
        Logprint ERROR ''pw_loop_iterate failed: %s'' [Arg_spa_strerror (- 32)],
        Sd_bus_unref 10, Pw_loop_leave 30, Pw_loop_destroy 30, Wl_display_disconnect 20])"
    by (simp add: sim_state_def sim_lib_variants)
  from c d e e2 e3 show ?thesis by (intro conjI)
qed

subsection \<open>C5: a take-over retries once\<close>



subsection \<open>C6: the path of the lock file fits its buffer\<close>

text \<open>
  Claim C6.  When the length of the runtime directory plus the ten bytes of
  \<open>"/xdpw.pid"\<close> and its terminator exceeds the 256 bytes of \<open>filename\<close>,
  \<open>open_pidfd\<close> returns \<open>-1\<close> with \<open>EOVERFLOW\<close> without any call to the system,
  and \<open>acquire\<close> fails.  Otherwise both \<open>memcpy\<close> stay inside the buffer, the
  buffer then starts with the directory, the suffix and a zero byte, and \<open>open\<close> is
  called on the directory followed by the suffix.  In no case is a byte written
  outside the buffer or an unterminated string passed on.
\<close>

theorem open_pidfd_path_guard:
  "(\<not> path_fits S w \<longrightarrow>
      open_pidfd S (w, t) = Some (Inl EOVERFLOW, w, t) \<and>
      assert_only_one_xdpw_instance S r (w, t) =
        Some (- 1, w,
              t @ [Logprint ERROR ''Failed to open pid file: %s\<newline>'' [Arg_strerror EOVERFLOW]])) \<and>
   (path_fits S w \<longrightarrow>
      (\<exists>filename1.
         memcpy (replicate sizeof_filename None) 0 (runtime_prefix S w)
           (strlen (runtime_prefix S w)) = Some filename1 \<and>
         memcpy filename1 (strlen (runtime_prefix S w)) (pidfdname @ [NUL]) sizeof_pidfdname =
           Some (map Some (pidfile_path S w @ [NUL]) @
                 replicate (sizeof_filename - (strlen (runtime_prefix S w) + sizeof_pidfdname))
                   None)) \<and>
      open_pidfd S (w, t) = Some (sys_open S (pidfile_path S w) (w, t))) \<and>
   open_pidfd S (w, t) \<noteq> None"
proof (intro conjI impI)
  assume long: "\<not> path_fits S w"
  then show "open_pidfd S (w, t) = Some (Inl EOVERFLOW, w, t)"
    using open_pidfd_too_long [of S "(w, t)"] by simp
  then show "assert_only_one_xdpw_instance S r (w, t) =
        Some (- 1, w,
              t @ [Logprint ERROR ''Failed to open pid file: %s\<newline>'' [Arg_strerror EOVERFLOW]])"
    using acquire_open_failed [of S "(w, t)" EOVERFLOW "(w, t)" r] by (simp add: logprint_def)
next
  assume fits: "path_fits S w"
  then show "open_pidfd S (w, t) = Some (sys_open S (pidfile_path S w) (w, t))"
    using open_pidfd_fits [of S "(w, t)"] by simp
  define p where "p = runtime_prefix S w"
  from fits have le: "strlen p \<le> sizeof_filename"
      "length (c_str p) + length (pidfdname @ [NUL]) \<le> sizeof_filename"
    by (simp_all add: path_fits_def p_def sizeof_pidfdname_def strlen_def)
  have "memcpy (replicate sizeof_filename None) 0 p (strlen p) =
      Some (map Some (c_str p) @ replicate (sizeof_filename - length (c_str p)) None)"
    using memcpy_prefix [OF le(1)] by (simp add: strlen_def)
  moreover have "memcpy (map Some (c_str p) @ replicate (sizeof_filename - length (c_str p)) None)
      (strlen p) (pidfdname @ [NUL]) sizeof_pidfdname =
      Some (map Some (pidfile_path S w @ [NUL]) @
            replicate (sizeof_filename - (strlen p + sizeof_pidfdname)) None)"
    using memcpy_suffix [OF le(2)]
    by (simp add: strlen_def sizeof_pidfdname_def pidfile_path_def p_def)
  ultimately show "\<exists>filename1.
         memcpy (replicate sizeof_filename None) 0 (runtime_prefix S w)
           (strlen (runtime_prefix S w)) = Some filename1 \<and>
         memcpy filename1 (strlen (runtime_prefix S w)) (pidfdname @ [NUL]) sizeof_pidfdname =
           Some (map Some (pidfile_path S w @ [NUL]) @
                 replicate (sizeof_filename - (strlen (runtime_prefix S w) + sizeof_pidfdname))
                   None)"
    unfolding p_def by blast
next
  show "open_pidfd S (w, t) \<noteq> None"
    by (simp add: open_pidfd_eq)
qed

text \<open>
  A directory name of 247 bytes is refused; \<open>/run/user/1000\<close> gives
  \<open>/run/user/1000/xdpw.pid\<close>.
\<close>

theorem open_pidfd_path_guard_witness:
  "open_pidfd (sim_libc_long_dir 4711) (stale_1234, []) = Some (Inl EOVERFLOW, stale_1234, []) \<and>
   assert_only_one_xdpw_instance (sim_libc_long_dir 4711) True (stale_1234, []) =
     Some (- 1, stale_1234,
           [Logprint ERROR ''Failed to open pid file: %s\<newline>'' [Arg_strerror EOVERFLOW]]) \<and>
   open_pidfd (sim_libc 4711) (stale_1234, []) =
     Some (Inr 3, stale_1234, [Open ''/run/user/1000/xdpw.pid'' (Inr 3)])"
  using open_pidfd_path_guard [of "sim_libc_long_dir 4711" stale_1234 "[]" True]
    open_pidfd_path_guard [of "sim_libc 4711" stale_1234 "[]" True]
  by (simp add: sys_open_def)

subsection \<open>C7: contention without the replace flag\<close>

text \<open>
  Claim C7, as amended.  When \<open>acquire\<close> is called without the replace flag and the
  lock is held, it returns \<open>-1\<close> after \<open>open\<close>, \<open>flock\<close> and \<open>read\<close> and one
  error message: no \<open>ftruncate\<close> and no \<open>write\<close> is called, and the world is as
  \<open>read\<close> left it.  The message names the holder, as the text read from the file,
  when \<open>read\<close> succeeded; when \<open>read\<close> failed it names no pid.
\<close>

theorem contention_without_replace:
  assumes "path_fits S w"
    and "os_open S (pidfile_path S w) w = (Inr pidfd, w1)"
    and "os_flock S pidfd w1 = (Inl EWOULDBLOCK, w2)"
    and "os_read S pidfd w2 = (r, w3)"
  shows "assert_only_one_xdpw_instance S False (w, t) =
     Some (- 1, w3,
       t @ [Open (pidfile_path S w) (Inr pidfd), Flock pidfd (Inl EWOULDBLOCK),
            Read pidfd 15 (map_sum id (take 15) r),
            (case r of
               Inl e \<Rightarrow> Logprint ERROR ''Another instance is already running\<newline>'' []
             | Inr bytes \<Rightarrow>
                 Logprint ERROR ''Another instance is already running with pid %s\<newline>''
                   [Arg_str (c_str (take 15 bytes))])]) \<and>
     filter is_file_change
       [Open (pidfile_path S w) (Inr pidfd), Flock pidfd (Inl EWOULDBLOCK),
        Read pidfd 15 (map_sum id (take 15) r),
        (case r of
           Inl e \<Rightarrow> Logprint ERROR ''Another instance is already running\<newline>'' []
         | Inr bytes \<Rightarrow>
             Logprint ERROR ''Another instance is already running with pid %s\<newline>''
               [Arg_str (c_str (take 15 bytes))])] = []"
proof (cases r)
  case (Inl e)
  with assms(4) have "os_read S pidfd w2 = (Inl e, w3)" by simp
  from acquire_read_failed [OF open_pidfd_os [OF assms(1,2), of t] sys_flock_os [OF assms(3)]
      sys_read_os_Inl [OF this]]
  show ?thesis using Inl by (simp add: logprint_def is_file_change_def)
next
  case (Inr bytes)
  with assms(4) have "os_read S pidfd w2 = (Inr bytes, w3)" by simp
  from acquire_running [OF open_pidfd_os [OF assms(1,2), of t] sys_flock_os [OF assms(3)]
      sys_read_os_Inr [OF this]]
  show ?thesis using Inr by (simp add: logprint_def is_file_change_def)
qed

text \<open>
  In the simulated system the holder 1234 is named and the file still holds
  \<open>1234\<close>.
\<close>

theorem contention_without_replace_witness:
  "assert_only_one_xdpw_instance (sim_libc 4711) False (held_by_1234, []) =
     Some (- 1, held_by_1234,
       [Open ''/run/user/1000/xdpw.pid'' (Inr 3), Flock 3 (Inl EWOULDBLOCK),
        Read 3 15 (Inr ''1234''),
        Logprint ERROR ''Another instance is already running with pid %s\<newline>''
          [Arg_str ''1234'']]) \<and>
   file_content held_by_1234 = ''1234''"
  using contention_without_replace [of "sim_libc 4711" held_by_1234 3
      held_by_1234 held_by_1234 "Inr ''1234''" held_by_1234 "[]"]
  by (simp add: held_by_1234_def c_str_def NUL_def)

text \<open>
  Claim C7 as it was stated fails: the lock is held, the lock file cannot be read,
  and the error message of the failed call names no pid.
\<close>

theorem contention_error_names_pid_counterexample:
  "assert_only_one_xdpw_instance (sim_libc_unreadable 4711) False (held_by_1234, []) =
     Some (- 1, held_by_1234,
       [Open ''/run/user/1000/xdpw.pid'' (Inr 3), Flock 3 (Inl EWOULDBLOCK),
        Read 3 15 (Inl 5),
        Logprint ERROR ''Another instance is already running\<newline>'' []])"
  by (subst assert_only_one_xdpw_instance.simps) (simp add: sim_eval sim_variants)

subsection \<open>C8: the shared state is built once\<close>



subsection \<open>C9: the start-up rolls back what it opened\<close>

text \<open>
  Claim C9.  After the bus is connected: when the display cannot be connected, the
  start-up logs the error, calls \<open>sd_bus_unref\<close> and returns \<open>EXIT_FAILURE\<close>; when
  the streaming loop cannot be created, it logs the error, calls
  \<open>wl_display_disconnect\<close> and \<open>sd_bus_unref\<close> and returns \<open>EXIT_FAILURE\<close>.  The
  log shows every call of the start-up: none is repeated and none follows the
  releases.  \<open>main\<close> returns that exit status.
\<close>

theorem bootstrap_rollback:
  assumes "lib_sd_bus_open_user L w = ((ret, b), w1)" and "0 \<le> ret"
  shows
   "(lib_wl_display_connect L w1 = (None, w2) \<longrightarrow>
       bootstrap L H out (w, t) =
         (Boot_exit EXIT_FAILURE, lib_sd_bus_unref L b w2,
          t @ [Sd_bus_open_user ret b, Logprint DEBUG ''dbus: connected'' [],
               Wl_display_connect None,
               Logprint ERROR ''wayland: failed to connect to display'' [],
               Sd_bus_unref b])) \<and>
    (lib_wl_display_connect L w1 = (Some d, w2) \<and>
     lib_pw_loop_new L (lib_pw_init L w2) = (None, w3) \<longrightarrow>
       bootstrap L H out (w, t) =
         (Boot_exit EXIT_FAILURE, lib_sd_bus_unref L b (lib_wl_display_disconnect L d w3),
          t @ [Sd_bus_open_user ret b, Logprint DEBUG ''dbus: connected'' [],
               Wl_display_connect (Some d),
               Logprint DEBUG ''wlroots: wl_display connected'' [],
               Pw_init, Pw_loop_new None,
               Logprint ERROR ''pipewire: failed to create loop'' [],
               Wl_display_disconnect d, Sd_bus_unref b])) \<and>
    (\<forall>S lvl r s0 s1 status s2.
       assert_only_one_xdpw_instance S r (init_logger L lvl s0) = Some (0, s1) \<and>
       bootstrap L H out s1 = (Boot_exit status, s2) \<longrightarrow>
       main S L H lvl out r s0 = Some (status, s2)) \<and>
    EXIT_FAILURE \<noteq> EXIT_SUCCESS"
  using assms
  by (auto simp: bootstrap_def lib_defs main_def EXIT_FAILURE_def EXIT_SUCCESS_def)

text \<open>
  The simulated desktop without a compositor, and without a streaming loop.
\<close>

theorem bootstrap_rollback_witness:
  "bootstrap sim_libs_no_display sim_h None (two_requests, []) =
     (Boot_exit EXIT_FAILURE, two_requests,
      [Sd_bus_open_user 0 10, Logprint DEBUG ''dbus: connected'' [],
       Wl_display_connect None,
       Logprint ERROR ''wayland: failed to connect to display'' [],
       Sd_bus_unref 10]) \<and>
   bootstrap sim_libs_no_loop sim_h None (two_requests, []) =
     (Boot_exit EXIT_FAILURE, two_requests,
      [Sd_bus_open_user 0 10, Logprint DEBUG ''dbus: connected'' [],
       Wl_display_connect (Some 20),
       Logprint DEBUG ''wlroots: wl_display connected'' [],
       Pw_init, Pw_loop_new None,
       Logprint ERROR ''pipewire: failed to create loop'' [],
       Wl_display_disconnect 20, Sd_bus_unref 10])"
  using bootstrap_rollback [of sim_libs_no_display two_requests 0 10 two_requests two_requests
      sim_h None "[]"]
    bootstrap_rollback [of sim_libs_no_loop two_requests 0 10 two_requests two_requests
      sim_h None "[]" 20 two_requests]
  by simp

subsection \<open>C10: no take-over when the lock file cannot be read\<close>

text \<open>
  Claim C10.  When the lock is held and \<open>read\<close> fails, \<open>acquire\<close> returns
  \<open>-1\<close> at once, with or without the replace flag: the log holds \<open>open\<close>,
  \<open>flock\<close>, \<open>read\<close> and the error message, no signal and no second \<open>open\<close>.
\<close>

theorem unreadable_holder_no_takeover:
  assumes "path_fits S w"
    and "os_open S (pidfile_path S w) w = (Inr pidfd, w1)"
    and "os_flock S pidfd w1 = (Inl EWOULDBLOCK, w2)"
    and "os_read S pidfd w2 = (Inl e, w3)"
  shows "assert_only_one_xdpw_instance S replace_existing (w, t) =
     Some (- 1, w3,
       t @ [Open (pidfile_path S w) (Inr pidfd), Flock pidfd (Inl EWOULDBLOCK),
            Read pidfd 15 (Inl e),
            Logprint ERROR ''Another instance is already running\<newline>'' []])"
  using acquire_read_failed [OF open_pidfd_os [OF assms(1,2), of t] sys_flock_os [OF assms(3)]
      sys_read_os_Inl [OF assms(4)]]
  by (simp add: logprint_def)

text \<open>
  The simulated system with an unreadable lock file and the replace flag set.
\<close>

theorem unreadable_holder_no_takeover_witness:
  "assert_only_one_xdpw_instance (sim_libc_unreadable 4711) True (held_by_1234, []) =
     Some (- 1, held_by_1234,
       [Open ''/run/user/1000/xdpw.pid'' (Inr 3), Flock 3 (Inl EWOULDBLOCK),
        Read 3 15 (Inl 5),
        Logprint ERROR ''Another instance is already running\<newline>'' []])"
  using unreadable_holder_no_takeover [of "sim_libc_unreadable 4711" held_by_1234 3
      held_by_1234 held_by_1234 5 held_by_1234 True "[]"]
  by (simp add: sim_variants held_by_1234_def)

end
